theory Spec2Isabelle
  imports Complex_Main
begin

section \<open>GLSL values and built-in functions\<close>

text \<open>
  The shaders compute on GLSL \<open>float\<close>, \<open>vec2\<close>, \<open>vec3\<close> and \<open>vec4\<close>. The
  embedding reads every \<open>float\<close> as a real number: rounding, infinities and NaN are not
  modelled, so every statement below is about the exact arithmetic the shader text
  denotes. The built-ins are written out as the GLSL specification defines them.
\<close>

datatype vec2 = Vec2 (x2: real) (y2: real)

datatype vec3 = Vec3 (vx: real) (vy: real) (vz: real)

datatype vec4 = Vec4 (qx: real) (qy: real) (qz: real) (qw: real)

definition PI :: real where
  "PI = 3.14159265359"

definition glsl_floor :: "real \<Rightarrow> real" where
  "glsl_floor x = of_int \<lfloor>x\<rfloor>"

definition glsl_fract :: "real \<Rightarrow> real" where
  "glsl_fract x = x - glsl_floor x"

definition glsl_mod :: "real \<Rightarrow> real \<Rightarrow> real" where
  "glsl_mod x y = x - y * glsl_floor (x / y)"

definition glsl_step :: "real \<Rightarrow> real \<Rightarrow> real" where
  "glsl_step edge x = (if x < edge then 0 else 1)"

definition clamp :: "real \<Rightarrow> real \<Rightarrow> real \<Rightarrow> real" where
  "clamp x lo hi = min (max x lo) hi"

definition mix :: "real \<Rightarrow> real \<Rightarrow> real \<Rightarrow> real" where
  "mix a b t = a * (1 - t) + b * t"

definition smoothstep :: "real \<Rightarrow> real \<Rightarrow> real \<Rightarrow> real" where
  "smoothstep edge0 edge1 x =
     (let t = clamp ((x - edge0) / (edge1 - edge0)) 0 1 in t * t * (3 - 2 * t))"

text \<open>\<open>pow(x, y)\<close>; GLSL leaves it undefined for \<open>x < 0\<close>.\<close>

definition pow :: "real \<Rightarrow> real \<Rightarrow> real" where
  "pow x y = x powr y"

text \<open>
  The two-argument \<open>atan(y, x)\<close>, the angle of the point \<open>(x, y)\<close> in \<open>(-\<pi>, \<pi>]\<close>;
  GLSL leaves \<open>atan(0, 0)\<close> undefined, the model gives it 0.
\<close>

definition atan2 :: "real \<Rightarrow> real \<Rightarrow> real" where
  "atan2 y x =
     (if 0 < x then arctan (y / x)
      else if x < 0 then (if 0 \<le> y then arctan (y / x) + pi else arctan (y / x) - pi)
      else if 0 < y then pi / 2
      else if y < 0 then - (pi / 2)
      else 0)"

subsection \<open>Vector arithmetic\<close>

definition add3 :: "vec3 \<Rightarrow> vec3 \<Rightarrow> vec3" where
  "add3 a b = Vec3 (vx a + vx b) (vy a + vy b) (vz a + vz b)"

definition sub3 :: "vec3 \<Rightarrow> vec3 \<Rightarrow> vec3" where
  "sub3 a b = Vec3 (vx a - vx b) (vy a - vy b) (vz a - vz b)"

definition mul3 :: "vec3 \<Rightarrow> vec3 \<Rightarrow> vec3" where
  "mul3 a b = Vec3 (vx a * vx b) (vy a * vy b) (vz a * vz b)"

definition div3 :: "vec3 \<Rightarrow> vec3 \<Rightarrow> vec3" where
  "div3 a b = Vec3 (vx a / vx b) (vy a / vy b) (vz a / vz b)"

definition scale3 :: "real \<Rightarrow> vec3 \<Rightarrow> vec3" where
  "scale3 k a = Vec3 (k * vx a) (k * vy a) (k * vz a)"

definition splat3 :: "real \<Rightarrow> vec3" where
  "splat3 k = Vec3 k k k"

definition dot3 :: "vec3 \<Rightarrow> vec3 \<Rightarrow> real" where
  "dot3 a b = vx a * vx b + vy a * vy b + vz a * vz b"

text \<open>Componentwise order on colours.\<close>

definition le3 :: "vec3 \<Rightarrow> vec3 \<Rightarrow> bool" where
  "le3 a b = (vx a \<le> vx b \<and> vy a \<le> vy b \<and> vz a \<le> vz b)"

definition length3 :: "vec3 \<Rightarrow> real" where
  "length3 a = sqrt (dot3 a a)"

definition length2 :: "vec2 \<Rightarrow> real" where
  "length2 a = sqrt (x2 a * x2 a + y2 a * y2 a)"

definition dot2 :: "vec2 \<Rightarrow> vec2 \<Rightarrow> real" where
  "dot2 a b = x2 a * x2 b + y2 a * y2 b"

definition cross :: "vec3 \<Rightarrow> vec3 \<Rightarrow> vec3" where
  "cross a b = Vec3 (vy a * vz b - vz a * vy b)
                    (vz a * vx b - vx a * vz b)
                    (vx a * vy b - vy a * vx b)"

text \<open>\<open>normalize(v)\<close>; GLSL leaves it undefined at the zero vector, where the model
  returns the zero vector.\<close>

definition normalize :: "vec3 \<Rightarrow> vec3" where
  "normalize a = scale3 (1 / length3 a) a"

definition map4 :: "(real \<Rightarrow> real) \<Rightarrow> vec4 \<Rightarrow> vec4" where
  "map4 f a = Vec4 (f (qx a)) (f (qy a)) (f (qz a)) (f (qw a))"

definition map3 :: "(real \<Rightarrow> real) \<Rightarrow> vec3 \<Rightarrow> vec3" where
  "map3 f a = Vec3 (f (vx a)) (f (vy a)) (f (vz a))"

definition zip4 :: "(real \<Rightarrow> real \<Rightarrow> real) \<Rightarrow> vec4 \<Rightarrow> vec4 \<Rightarrow> vec4" where
  "zip4 f a b = Vec4 (f (qx a) (qx b)) (f (qy a) (qy b)) (f (qz a) (qz b)) (f (qw a) (qw b))"

definition zip3 :: "(real \<Rightarrow> real \<Rightarrow> real) \<Rightarrow> vec3 \<Rightarrow> vec3 \<Rightarrow> vec3" where
  "zip3 f a b = Vec3 (f (vx a) (vx b)) (f (vy a) (vy b)) (f (vz a) (vz b))"

definition dot4 :: "vec4 \<Rightarrow> vec4 \<Rightarrow> real" where
  "dot4 a b = qx a * qx b + qy a * qy b + qz a * qz b + qw a * qw b"

section \<open>Simplex noise (\<open>kerr_postprocess.glsl\<close>, \<open>kerr_blackhole.glsl\<close>)\<close>

definition permute :: "vec4 \<Rightarrow> vec4" where
  "permute x = map4 (\<lambda>c. glsl_mod (((c * 34) + 1) * c) 289) x"

definition taylorInvSqrt :: "vec4 \<Rightarrow> vec4" where
  "taylorInvSqrt r = map4 (\<lambda>c. 1.79284291400159 - 0.85373472095314 * c) r"

definition snoise :: "vec3 \<Rightarrow> real" where
  "snoise v =
    (let Cx = 1 / 6; Cy = 1 / 3;
         Dx = 0; Dy = 0.5; Dz = 1; Dw = 2;
         i = map3 glsl_floor (add3 v (splat3 (dot3 v (splat3 Cy))));
         x0 = add3 (sub3 v i) (splat3 (dot3 i (splat3 Cx)));
         g = zip3 glsl_step (Vec3 (vy x0) (vz x0) (vx x0)) x0;
         l = sub3 (splat3 1) g;
         i1 = zip3 min g (Vec3 (vz l) (vx l) (vy l));
         i2 = zip3 max g (Vec3 (vz l) (vx l) (vy l));
         x1 = add3 (sub3 x0 i1) (splat3 (1 * Cx));
         x2 = add3 (sub3 x0 i2) (splat3 (2 * Cx));
         x3 = add3 (sub3 x0 (splat3 1)) (splat3 (3 * Cx));
         i = map3 (\<lambda>c. glsl_mod c 289) i;
         p = permute (zip4 (+) (map4 (\<lambda>c. c + vx i)
               (permute (zip4 (+) (map4 (\<lambda>c. c + vy i)
                 (permute (map4 (\<lambda>c. vz i + c) (Vec4 0 (vz i1) (vz i2) 1))))
                 (Vec4 0 (vy i1) (vy i2) 1))))
               (Vec4 0 (vx i1) (vx i2) 1));
         n7 = 1 / 7;
         ns = sub3 (scale3 n7 (Vec3 Dw Dy Dz)) (Vec3 Dx Dz Dx);
         j = map4 (\<lambda>c. c - 49 * glsl_floor (c * vz ns * vz ns)) p;
         xf = map4 (\<lambda>c. glsl_floor (c * vz ns)) j;
         yf = zip4 (\<lambda>a b. glsl_floor (a - 7 * b)) j xf;
         x = map4 (\<lambda>c. c * vx ns + vy ns) xf;
         y = map4 (\<lambda>c. c * vx ns + vy ns) yf;
         h = zip4 (\<lambda>a b. 1 - \<bar>a\<bar> - \<bar>b\<bar>) x y;
         b0 = Vec4 (qx x) (qy x) (qx y) (qy y);
         b1 = Vec4 (qz x) (qw x) (qz y) (qw y);
         s0 = map4 (\<lambda>c. glsl_floor c * 2 + 1) b0;
         s1 = map4 (\<lambda>c. glsl_floor c * 2 + 1) b1;
         sh = map4 (\<lambda>c. - glsl_step c 0) h;
         a0 = Vec4 (qx b0 + qx s0 * qx sh) (qz b0 + qz s0 * qx sh)
                   (qy b0 + qy s0 * qy sh) (qw b0 + qw s0 * qy sh);
         a1 = Vec4 (qx b1 + qx s1 * qz sh) (qz b1 + qz s1 * qz sh)
                   (qy b1 + qy s1 * qw sh) (qw b1 + qw s1 * qw sh);
         p0 = Vec3 (qx a0) (qy a0) (qx h);
         p1 = Vec3 (qz a0) (qw a0) (qy h);
         p2 = Vec3 (qx a1) (qy a1) (qz h);
         p3 = Vec3 (qz a1) (qw a1) (qw h);
         norm = taylorInvSqrt (Vec4 (dot3 p0 p0) (dot3 p1 p1) (dot3 p2 p2) (dot3 p3 p3));
         p0 = scale3 (qx norm) p0;
         p1 = scale3 (qy norm) p1;
         p2 = scale3 (qz norm) p2;
         p3 = scale3 (qw norm) p3;
         m = map4 (\<lambda>c. max (0.6 - c) 0)
               (Vec4 (dot3 x0 x0) (dot3 x1 x1) (dot3 x2 x2) (dot3 x3 x3));
         m = zip4 (*) m m
     in 42 * dot4 (zip4 (*) m m)
               (Vec4 (dot3 p0 x0) (dot3 p1 x1) (dot3 p2 x2) (dot3 p3 x3)))"


section \<open>The volumetric Kerr shader (\<open>kerr_postprocess.glsl\<close>, \<open>kerr_blackhole.glsl\<close>)\<close>

text \<open>
  The two files hold the same \<open>accel\<close>, \<open>toSpherical\<close>, \<open>adiskColor\<close>,
  \<open>sampleBackground\<close>, \<open>traceColor\<close> and \<open>lookAt\<close>, statement for statement; they
  differ only in their entry point. The uniforms are the ambient globals of the shader,
  passed explicitly here.
\<close>

record uniforms =
  uResolution :: vec2
  uCamPos :: vec3
  uTime :: real
  uMass :: real
  uSpin :: real
  uDiskInner :: real
  uDiskOuter :: real
  uDiskThickness :: real
  uDiskRotationSpeed :: real
  uGlowIntensity :: real

text \<open>A full set of uniform values, for stating concrete instances: resolution 800 by 600,
  camera at \<open>(0, 0, 15)\<close>, disk rotation speed and glow intensity 1.\<close>

abbreviation uniformsOf :: "real \<Rightarrow> real \<Rightarrow> real \<Rightarrow> real \<Rightarrow> real \<Rightarrow> real \<Rightarrow> uniforms" where
  "uniformsOf mass spin inner outer thickness time \<equiv>
     \<lparr> uResolution = Vec2 800 600, uCamPos = Vec3 0 0 15, uTime = time, uMass = mass,
       uSpin = spin, uDiskInner = inner, uDiskOuter = outer, uDiskThickness = thickness,
       uDiskRotationSpeed = 1, uGlowIntensity = 1 \<rparr>"

definition MAX_STEPS :: nat where
  "MAX_STEPS = 300"

definition STEP_SIZE :: real where
  "STEP_SIZE = 0.1"

subsection \<open>Quaternion rotation and coordinates\<close>

definition quadFromAxisAngle :: "vec3 \<Rightarrow> real \<Rightarrow> vec4" where
  "quadFromAxisAngle axis angle =
     (let half_angle = (angle * 0.5) * PI / 180
      in Vec4 (vx axis * sin half_angle) (vy axis * sin half_angle)
              (vz axis * sin half_angle) (cos half_angle))"

definition quadConj :: "vec4 \<Rightarrow> vec4" where
  "quadConj q = Vec4 (- qx q) (- qy q) (- qz q) (qw q)"

definition quat_mult :: "vec4 \<Rightarrow> vec4 \<Rightarrow> vec4" where
  "quat_mult q1 q2 =
     Vec4 ((qw q1 * qx q2) + (qx q1 * qw q2) + (qy q1 * qz q2) - (qz q1 * qy q2))
          ((qw q1 * qy q2) - (qx q1 * qz q2) + (qy q1 * qw q2) + (qz q1 * qx q2))
          ((qw q1 * qz q2) + (qx q1 * qy q2) - (qy q1 * qx q2) + (qz q1 * qw q2))
          ((qw q1 * qw q2) - (qx q1 * qx q2) - (qy q1 * qy q2) - (qz q1 * qz q2))"

definition rotateVector :: "vec3 \<Rightarrow> vec3 \<Rightarrow> real \<Rightarrow> vec3" where
  "rotateVector position axis angle =
     (let qr = quadFromAxisAngle axis angle;
          qr_conj = quadConj qr;
          q_pos = Vec4 (vx position) (vy position) (vz position) 0;
          q_tmp = quat_mult qr q_pos;
          qr = quat_mult q_tmp qr_conj
      in Vec3 (qx qr) (qy qr) (qz qr))"

definition toSpherical :: "vec3 \<Rightarrow> vec3" where
  "toSpherical p =
     (let rho = length3 p;
          theta = atan2 (vz p) (vx p);
          phi = arcsin (clamp (vy p / rho) (-1) 1)
      in Vec3 rho theta phi)"

subsection \<open>Geodesic acceleration\<close>

definition accel :: "real \<Rightarrow> vec3 \<Rightarrow> vec3" where
  "accel h2 pos =
     (let r2 = dot3 pos pos;
          r = sqrt r2
      in if r < 1 then splat3 0
         else (let r5 = pow r2 2.5
               in Vec3 (-1.5 * h2 * vx pos / r5) (-1.5 * h2 * vy pos / r5)
                       (-1.5 * h2 * vz pos / r5)))"

subsection \<open>Accretion disk\<close>

text \<open>
  \<open>adiskColor\<close> is split at its two early returns. \<open>diskDensity0\<close> is the value of
  \<open>density\<close> at the first test, \<open>diskDensity1\<close> at the second, \<open>diskDensity\<close> after the
  radial falloff and the brightness constant.
\<close>

text \<open>\<open>length(pos.xyz / vec3(outerRadius, uDiskThickness, outerRadius))\<close>, the radius of
  the position in units of the disk ellipsoid.\<close>

definition ellipsoidRadius :: "uniforms \<Rightarrow> vec3 \<Rightarrow> real" where
  "ellipsoidRadius U pos =
     length3 (div3 pos (Vec3 (uDiskOuter U) (uDiskThickness U) (uDiskOuter U)))"

definition diskDensity0 :: "uniforms \<Rightarrow> vec3 \<Rightarrow> real" where
  "diskDensity0 U pos = max 0 (1 - ellipsoidRadius U pos)"

definition diskDensity1 :: "uniforms \<Rightarrow> vec3 \<Rightarrow> real" where
  "diskDensity1 U pos =
     diskDensity0 U pos * pow (1 - \<bar>vy pos\<bar> / uDiskThickness U) 2
       * smoothstep (uDiskInner U) (uDiskInner U * 1.1) (length3 pos)"

definition diskDensity :: "uniforms \<Rightarrow> vec3 \<Rightarrow> real" where
  "diskDensity U pos =
     diskDensity1 U pos * (1 / pow (vx (toSpherical pos)) 4) * 32000"

text \<open>The five-octave loop \<open>for (int i = 0; i < 5; i++)\<close>: \<open>k\<close> iterations remain, \<open>i\<close> is
  the loop counter.\<close>

fun noiseLoop :: "uniforms \<Rightarrow> nat \<Rightarrow> nat \<Rightarrow> real \<Rightarrow> vec3 \<Rightarrow> real" where
  "noiseLoop U 0 i noise sphericalCoord = noise"
| "noiseLoop U (Suc k) i noise sphericalCoord =
     noiseLoop U k (i + 1)
       (noise * (0.5 * snoise (scale3 0.8 (scale3 (pow (real i) 2) sphericalCoord)) + 0.5))
       (if i mod 2 = 0
        then Vec3 (vx sphericalCoord) (vy sphericalCoord + uTime U * uDiskRotationSpeed U)
                  (vz sphericalCoord)
        else Vec3 (vx sphericalCoord) (vy sphericalCoord - uTime U * uDiskRotationSpeed U)
                  (vz sphericalCoord))"

definition diskNoise :: "uniforms \<Rightarrow> vec3 \<Rightarrow> real" where
  "diskNoise U pos =
     (let sphericalCoord = toSpherical pos;
          sphericalCoord = Vec3 (vx sphericalCoord) (vy sphericalCoord * 2)
                                (vz sphericalCoord * 4)
      in noiseLoop U 5 0 1 sphericalCoord)"

definition mix3 :: "vec3 \<Rightarrow> vec3 \<Rightarrow> real \<Rightarrow> vec3" where
  "mix3 a b t = Vec3 (mix (vx a) (vx b) t) (mix (vy a) (vy b) t) (mix (vz a) (vz b) t)"

definition diskEmission :: "uniforms \<Rightarrow> vec3 \<Rightarrow> vec3" where
  "diskEmission U pos =
     (let innerRadius = uDiskInner U;
          outerRadius = uDiskOuter U;
          r = length2 (Vec2 (vx pos) (vz pos));
          angle = atan2 (vz pos) (vx pos);
          temp = smoothstep outerRadius innerRadius r;
          temp = pow temp 0.75;
          orbitalVel = 1 / sqrt (max r 0.1);
          rotAngle = angle - uTime U * uDiskRotationSpeed U * orbitalVel;
          dopplerFactor = sin rotAngle;
          beaming = 1 + dopplerFactor * 0.7;
          blueshifted = Vec3 0.3 0.6 2;
          neutral = Vec3 1.2 1 0.7;
          redshifted = Vec3 2 0.3 0.05;
          diskColor = (if dopplerFactor > 0 then mix3 neutral blueshifted dopplerFactor
                       else mix3 neutral redshifted (- dopplerFactor));
          diskColor = mix3 diskColor (Vec3 1.8 1.6 1.4) (temp * 0.8);
          brightness = (temp * 12 + 2) * beaming
      in scale3 brightness diskColor)"

text \<open>\<open>void adiskColor(vec3 pos, inout vec3 color, inout float alpha)\<close>: the two
  \<open>inout\<close> parameters are returned as a pair.\<close>

definition adiskColor :: "uniforms \<Rightarrow> vec3 \<Rightarrow> vec3 \<times> real \<Rightarrow> vec3 \<times> real" where
  "adiskColor U pos ca =
     (let color = fst ca; alpha = snd ca in
      if diskDensity0 U pos < 0.001 then (color, alpha)
      else if diskDensity1 U pos < 0.001 then (color, alpha)
      else (add3 color
              (scale3 (diskDensity U pos * 0.8 * alpha * \<bar>diskNoise U pos\<bar>)
                 (diskEmission U pos)),
            alpha))"

subsection \<open>Background\<close>

text \<open>The loop \<open>for (float i = 0.0; i < 3.0; i++)\<close> of \<open>sampleBackground\<close>, with \<open>k\<close>
  iterations remaining.\<close>

fun starLoop :: "vec2 \<Rightarrow> nat \<Rightarrow> real \<Rightarrow> real \<Rightarrow> real" where
  "starLoop uv 0 i stars = stars"
| "starLoop uv (Suc k) i stars =
     (let scale = pow 2 i;
          coord = Vec2 (x2 uv * 30 * scale) (y2 uv * 30 * scale);
          n = glsl_fract (sin (dot2 coord (Vec2 127.1 311.7)) * 43758.5453123)
      in starLoop uv k (i + 1) (stars + glsl_step (0.995 - i * 0.003) n * (1 - i * 0.25)))"

definition backgroundUV :: "uniforms \<Rightarrow> vec3 \<Rightarrow> vec2" where
  "backgroundUV U dir0 =
     (let dir = rotateVector dir0 (Vec3 0 1 0) (uTime U * 10)
      in Vec2 (0.5 - atan2 (vz dir) (vx dir) / (2 * PI))
              (0.5 - arcsin (clamp (vy dir) (-1) 1) / PI))"

definition sampleBackground :: "uniforms \<Rightarrow> vec3 \<Rightarrow> vec3" where
  "sampleBackground U dir =
     (let uv = backgroundUV U dir;
          stars = starLoop uv 3 0 0
      in scale3 0.9 (splat3 stars))"

subsection \<open>The ray loop\<close>

record ray =
  pos :: vec3
  dir :: vec3
  color :: vec3
  alpha :: real

definition eventHorizon :: "uniforms \<Rightarrow> real" where
  "eventHorizon U = 2 * uMass U * (1 - uSpin U * 0.5)"

text \<open>One pass through the loop body below the two exits: disk sample, then
  \<open>dir += acc; pos += dir\<close>.\<close>

definition stepRay :: "uniforms \<Rightarrow> real \<Rightarrow> ray \<Rightarrow> ray" where
  "stepRay U h2 s =
     (let ca = adiskColor U (pos s) (color s, alpha s);
          acc = accel h2 (pos s);
          d = add3 (dir s) acc
      in \<lparr> pos = add3 (pos s) d, dir = d, color = fst ca, alpha = snd ca \<rparr>)"

fun traceLoop :: "uniforms \<Rightarrow> real \<Rightarrow> nat \<Rightarrow> ray \<Rightarrow> vec3" where
  "traceLoop U h2 0 s =
     add3 (color s) (scale3 (alpha s) (sampleBackground U (normalize (dir s))))"
| "traceLoop U h2 (Suc n) s =
     (let r = length3 (pos s) in
      if r < eventHorizon U then color s
      else if r > 100 then
        add3 (color s) (scale3 (alpha s) (sampleBackground U (normalize (dir s))))
      else traceLoop U h2 n (stepRay U h2 s))"

definition initRay :: "vec3 \<Rightarrow> vec3 \<Rightarrow> ray" where
  "initRay p d = \<lparr> pos = p, dir = scale3 STEP_SIZE d, color = splat3 0, alpha = 1 \<rparr>"

text \<open>\<open>h2\<close>, the squared angular momentum \<open>dot(h, h)\<close> for \<open>h = cross(pos, dir)\<close>, taken
  once before the loop.\<close>

definition angularMomentum2 :: "ray \<Rightarrow> real" where
  "angularMomentum2 s = (let h = cross (pos s) (dir s) in dot3 h h)"

definition traceColor :: "uniforms \<Rightarrow> vec3 \<Rightarrow> vec3 \<Rightarrow> vec3" where
  "traceColor U p d =
     (let s = initRay p d;
          h2 = angularMomentum2 s
      in traceLoop U h2 MAX_STEPS s)"

text \<open>The state after \<open>k\<close> passes through the loop body, and the two exit tests.\<close>

fun iterRay :: "uniforms \<Rightarrow> real \<Rightarrow> nat \<Rightarrow> ray \<Rightarrow> ray" where
  "iterRay U h2 0 s = s"
| "iterRay U h2 (Suc k) s = iterRay U h2 k (stepRay U h2 s)"

definition absorbed :: "uniforms \<Rightarrow> ray \<Rightarrow> bool" where
  "absorbed U s = (length3 (pos s) < eventHorizon U)"

definition escaped :: "uniforms \<Rightarrow> ray \<Rightarrow> bool" where
  "escaped U s = (\<not> absorbed U s \<and> length3 (pos s) > 100)"

definition active :: "uniforms \<Rightarrow> ray \<Rightarrow> bool" where
  "active U s = (\<not> absorbed U s \<and> \<not> length3 (pos s) > 100)"

text \<open>\<open>activeFor U h2 n s\<close>: the first \<open>n\<close> loop tests all fall through to the body.\<close>

fun activeFor :: "uniforms \<Rightarrow> real \<Rightarrow> nat \<Rightarrow> ray \<Rightarrow> bool" where
  "activeFor U h2 0 s = True"
| "activeFor U h2 (Suc k) s = (active U s \<and> activeFor U h2 k (stepRay U h2 s))"

subsection \<open>Camera and entry points\<close>

text \<open>\<open>mat3(uu, vv, ww)\<close> is kept as its three columns; \<open>view * dir\<close> is \<open>mulMat3\<close>.\<close>

definition lookAt :: "vec3 \<Rightarrow> vec3 \<Rightarrow> real \<Rightarrow> vec3 \<times> vec3 \<times> vec3" where
  "lookAt origin target roll =
     (let rr = Vec3 (sin roll) (cos roll) 0;
          ww = normalize (sub3 target origin);
          uu = normalize (cross ww rr);
          vv = normalize (cross uu ww)
      in (uu, vv, ww))"

definition mulMat3 :: "vec3 \<times> vec3 \<times> vec3 \<Rightarrow> vec3 \<Rightarrow> vec3" where
  "mulMat3 m v =
     (case m of (c0, c1, c2) \<Rightarrow>
        add3 (add3 (scale3 (vx v) c0) (scale3 (vy v) c1)) (scale3 (vz v) c2))"

text \<open>\<open>mainImage\<close> of \<open>kerr_postprocess.glsl\<close>; \<open>inputColor\<close> is the colour the
  post-processing pass hands in.\<close>

definition mainImage :: "uniforms \<Rightarrow> vec4 \<Rightarrow> vec2 \<Rightarrow> vec4" where
  "mainImage U inputColor uv =
     (let cameraPos = uCamPos U;
          target = Vec3 0 0 0;
          view = lookAt cameraPos target 0;
          screenUv = Vec2 (x2 uv * 2 - 1) (y2 uv * 2 - 1);
          screenUv = Vec2 (x2 screenUv * (x2 (uResolution U) / y2 (uResolution U)))
                          (y2 screenUv);
          d = normalize (Vec3 (- x2 screenUv) (y2 screenUv) 1);
          d = mulMat3 view d;
          finalColor = traceColor U cameraPos d;
          vignette = 1 - length2 screenUv * 0.15;
          finalColor = scale3 vignette finalColor;
          finalColor = map3 (\<lambda>c. pow c 0.85) finalColor
      in Vec4 (vx finalColor) (vy finalColor) (vz finalColor) 1)"

text \<open>\<open>main\<close> of \<open>kerr_blackhole.glsl\<close>; \<open>fragCoord\<close> is \<open>gl_FragCoord.xy\<close>.\<close>

definition main_kerr :: "uniforms \<Rightarrow> vec2 \<Rightarrow> vec4" where
  "main_kerr U fragCoord =
     (let cameraPos = uCamPos U;
          target = Vec3 0 0 0;
          view = lookAt cameraPos target 0;
          uv = Vec2 (x2 fragCoord / x2 (uResolution U) - 0.5)
                    (y2 fragCoord / y2 (uResolution U) - 0.5);
          uv = Vec2 (x2 uv * (x2 (uResolution U) / y2 (uResolution U))) (y2 uv);
          d = normalize (Vec3 (- x2 uv) (y2 uv) 1);
          d = mulMat3 view d;
          finalColor = traceColor U cameraPos d;
          vignette = 1 - length2 uv * 0.15;
          finalColor = scale3 vignette finalColor;
          finalColor = map3 (\<lambda>c. pow c 0.85) finalColor
      in Vec4 (vx finalColor) (vy finalColor) (vz finalColor) 1)"


section \<open>The ray-marched lensing shader (\<open>public/shaders/blackhole/gravitational_lensing.glsl\<close>)\<close>

text \<open>Names that the Kerr shader also uses carry the suffix \<open>_gl\<close>.\<close>

definition SCHWARZSCHILD_RADIUS :: real where
  "SCHWARZSCHILD_RADIUS = 2"

definition PHOTON_SPHERE :: real where
  "PHOTON_SPHERE = 3"

definition MAX_STEPS_gl :: nat where
  "MAX_STEPS_gl = 256"

definition STEP_SIZE_gl :: real where
  "STEP_SIZE_gl = 0.1"

definition hash :: "vec2 \<Rightarrow> real" where
  "hash p = glsl_fract (sin (dot2 p (Vec2 127.1 311.7)) * 43758.5453123)"

definition noise :: "vec2 \<Rightarrow> real" where
  "noise p =
     (let i = Vec2 (glsl_floor (x2 p)) (glsl_floor (y2 p));
          f = Vec2 (glsl_fract (x2 p)) (glsl_fract (y2 p));
          f = Vec2 (x2 f * x2 f * (3 - 2 * x2 f)) (y2 f * y2 f * (3 - 2 * y2 f));
          a = hash i;
          b = hash (Vec2 (x2 i + 1) (y2 i + 0));
          c = hash (Vec2 (x2 i + 0) (y2 i + 1));
          d = hash (Vec2 (x2 i + 1) (y2 i + 1))
      in mix (mix a b (x2 f)) (mix c d (x2 f)) (y2 f))"

definition metricCoeff :: "real \<Rightarrow> real" where
  "metricCoeff r = 1 - SCHWARZSCHILD_RADIUS / r"

definition geodesicAcceleration :: "vec3 \<Rightarrow> vec3 \<Rightarrow> vec3" where
  "geodesicAcceleration p vel =
     (let r = length3 p in
      if r < SCHWARZSCHILD_RADIUS * 1.01 then splat3 0
      else (let rhat = scale3 (1 / r) p;
                vr = dot3 vel rhat;
                factor = SCHWARZSCHILD_RADIUS / (r * r * metricCoeff r);
                accel_radial = scale3 (- factor * (dot3 vel vel - vr * vr)) rhat;
                accel_tangential = scale3 (- factor * 2 * vr) (sub3 vel (scale3 vr rhat))
            in add3 accel_radial accel_tangential))"

text \<open>
  \<open>rk4Step\<close> updates its two \<open>inout\<close> parameters and then normalises the velocity.
  \<open>rk4Update\<close> is the function up to the statement \<open>vel = normalize(vel)\<close>, \<open>rk4Step\<close>
  the whole of it.
\<close>

definition rk4Update :: "vec3 \<Rightarrow> vec3 \<Rightarrow> real \<Rightarrow> vec3 \<times> vec3" where
  "rk4Update p vel dt =
     (let k1_v = geodesicAcceleration p vel;
          k1_p = vel;
          k2_v = geodesicAcceleration (add3 p (scale3 (0.5 * dt) k1_p))
                                      (add3 vel (scale3 (0.5 * dt) k1_v));
          k2_p = add3 vel (scale3 (0.5 * dt) k1_v);
          k3_v = geodesicAcceleration (add3 p (scale3 (0.5 * dt) k2_p))
                                      (add3 vel (scale3 (0.5 * dt) k2_v));
          k3_p = add3 vel (scale3 (0.5 * dt) k2_v);
          k4_v = geodesicAcceleration (add3 p (scale3 dt k3_p)) (add3 vel (scale3 dt k3_v));
          k4_p = add3 vel (scale3 dt k3_v)
      in (add3 p (scale3 (dt / 6)
                   (add3 (add3 (add3 k1_p (scale3 2 k2_p)) (scale3 2 k3_p)) k4_p)),
          add3 vel (scale3 (dt / 6)
                   (add3 (add3 (add3 k1_v (scale3 2 k2_v)) (scale3 2 k3_v)) k4_v))))"

definition rk4Step :: "vec3 \<Rightarrow> vec3 \<Rightarrow> real \<Rightarrow> vec3 \<times> vec3" where
  "rk4Step p vel dt = (case rk4Update p vel dt of (p', vel') \<Rightarrow> (p', normalize vel'))"

text \<open>\<open>bool intersectDisk(vec3 pos, out vec3 hitPoint)\<close>: \<open>Some hitPoint\<close> for \<open>true\<close>.\<close>

definition intersectDisk :: "uniforms \<Rightarrow> vec3 \<Rightarrow> vec3 option" where
  "intersectDisk U p =
     (if \<bar>vz p\<bar> < uDiskThickness U then
        (let r = length2 (Vec2 (vx p) (vy p)) in
         if r \<ge> uDiskInner U \<and> r \<le> uDiskOuter U then Some p else None)
      else None)"

definition getDiskColor :: "uniforms \<Rightarrow> vec3 \<Rightarrow> vec3" where
  "getDiskColor U hitPoint =
     (let r = length2 (Vec2 (vx hitPoint) (vy hitPoint));
          angle = atan2 (vy hitPoint) (vx hitPoint);
          temp = smoothstep (uDiskOuter U) (uDiskInner U) r;
          temp = pow temp 0.75;
          orbitalVel = 1 / sqrt (max r 0.1);
          rotAngle = angle - uTime U * uDiskRotationSpeed U * orbitalVel;
          dopplerFactor = sin rotAngle;
          beaming = 1 + dopplerFactor * 0.7;
          blueshifted = Vec3 0.3 0.6 1.3;
          neutral = Vec3 1 0.9 0.6;
          redshifted = Vec3 1.3 0.3 0.05;
          diskColor = (if dopplerFactor > 0 then mix3 neutral blueshifted (dopplerFactor * 0.9)
                       else mix3 neutral redshifted (- dopplerFactor * 0.9));
          diskColor = mix3 diskColor (Vec3 1.5 1.4 1.2) (temp * 0.8);
          brightness = (temp * 5 + 0.5) * beaming;
          diskColor = scale3 brightness diskColor;
          turb = noise (Vec2 (r * 8) (angle * 5 + uTime U * 0.5));
          diskColor = scale3 (0.6 + turb * 0.8) diskColor;
          innerEdge = smoothstep (uDiskInner U - 0.2) (uDiskInner U + 0.3) r;
          outerEdge = 1 - smoothstep (uDiskOuter U - 0.5) (uDiskOuter U + 0.1) r;
          diskColor = scale3 (innerEdge * outerEdge) diskColor;
          glow = exp (- (r - uDiskInner U) * 2) * uGlowIntensity U
      in add3 diskColor (scale3 glow (Vec3 1.2 0.9 0.5)))"

fun starLoop_gl :: "vec2 \<Rightarrow> nat \<Rightarrow> real \<Rightarrow> real \<Rightarrow> real" where
  "starLoop_gl uv 0 i stars = stars"
| "starLoop_gl uv (Suc k) i stars =
     (let scale = pow 2 i;
          coord = Vec2 (x2 uv * 30 * scale) (y2 uv * 30 * scale);
          n = noise coord
      in starLoop_gl uv k (i + 1) (stars + glsl_step (0.995 - i * 0.003) n * (1 - i * 0.25)))"

definition sampleBackground_gl :: "vec3 \<Rightarrow> vec3" where
  "sampleBackground_gl d =
     (let uv = Vec2 (atan2 (vz d) (vx d) / (2 * PI) + 0.5)
                    (arcsin (clamp (vy d) (-1) 1) / PI + 0.5);
          stars = starLoop_gl uv 3 0 0
      in scale3 0.9 (splat3 stars))"

text \<open>
  The loop of \<open>main\<close> together with the fallback \<open>if (!hitSomething)\<close> behind it: the
  value of \<open>finalColor\<close> before the glow, vignette and gamma statements. \<open>n\<close> iterations
  remain; position and velocity are the loop's two mutable variables.
\<close>

fun marchLoop :: "uniforms \<Rightarrow> nat \<Rightarrow> vec3 \<Rightarrow> vec3 \<Rightarrow> vec3" where
  "marchLoop U 0 p vel = sampleBackground_gl (normalize vel)"
| "marchLoop U (Suc n) p vel =
     (let r = length3 p in
      if r < SCHWARZSCHILD_RADIUS * 1.05 then Vec3 0 0 0
      else if r > 100 then sampleBackground_gl (normalize vel)
      else (case intersectDisk U p of
              Some hitPoint \<Rightarrow> getDiskColor U hitPoint
            | None \<Rightarrow> (case rk4Step p vel STEP_SIZE_gl of (p', vel') \<Rightarrow> marchLoop U n p' vel')))"

definition main_gl :: "uniforms \<Rightarrow> vec2 \<Rightarrow> vec4" where
  "main_gl U vUv =
     (let aspect = x2 (uResolution U) / y2 (uResolution U);
          uv = Vec2 ((x2 vUv * 2 - 1) * aspect) ((y2 vUv * 2 - 1) * 1);
          rayOrigin = uCamPos U;
          rayDir = normalize (Vec3 (x2 uv) (y2 uv) (-1.5));
          finalColor = marchLoop U MAX_STEPS_gl rayOrigin rayDir;
          camR = length3 (uCamPos U);
          distToPhotonSphere = \<bar>camR - PHOTON_SPHERE\<bar>;
          photonGlow = exp (- distToPhotonSphere * 3) * 0.4 * uGlowIntensity U;
          finalColor = add3 finalColor (scale3 photonGlow (Vec3 0.3 0.5 1));
          vignette = 1 - length2 uv * 0.15;
          finalColor = scale3 vignette finalColor;
          finalColor = map3 (\<lambda>c. pow c 0.85) finalColor
      in Vec4 (vx finalColor) (vy finalColor) (vz finalColor) 1)"

text \<open>The state after \<open>k\<close> integration steps, and the test that the first \<open>k\<close> passes
  through the loop reach \<open>rk4Step\<close>.\<close>

fun iterMarch :: "nat \<Rightarrow> vec3 \<times> vec3 \<Rightarrow> vec3 \<times> vec3" where
  "iterMarch 0 pv = pv"
| "iterMarch (Suc k) pv = iterMarch k (rk4Step (fst pv) (snd pv) STEP_SIZE_gl)"

definition marching :: "uniforms \<Rightarrow> vec3 \<Rightarrow> bool" where
  "marching U p =
     (\<not> length3 p < SCHWARZSCHILD_RADIUS * 1.05 \<and> \<not> length3 p > 100
      \<and> intersectDisk U p = None)"

fun marchingFor :: "uniforms \<Rightarrow> nat \<Rightarrow> vec3 \<times> vec3 \<Rightarrow> bool" where
  "marchingFor U 0 pv = True"
| "marchingFor U (Suc k) pv =
     (marching U (fst pv) \<and> marchingFor U k (rk4Step (fst pv) (snd pv) STEP_SIZE_gl))"

section \<open>The Kerr-inspired lensing shader (\<open>shaders/blackhole/gravitational_lensing.glsl\<close>)\<close>

text \<open>Of this variant the horizon radius and the texture lookup are modelled. The bound
  texture \<open>uBgTexture\<close> is a function from texture coordinates to colours.\<close>

definition kerrEventHorizon_glsl :: "uniforms \<Rightarrow> real" where
  "kerrEventHorizon_glsl U =
     (let a = clamp (uSpin U) 0 0.999;
          m = max (uMass U) 0.0001
      in m + sqrt (max (m * m - (a * m) * (a * m)) 0))"

definition sampleBackground_tex :: "(vec2 \<Rightarrow> vec3) \<Rightarrow> vec3 \<Rightarrow> vec3" where
  "sampleBackground_tex uBgTexture d =
     (let uv = Vec2 (atan2 (vz d) (vx d) / (2 * PI) + 0.5)
                    (arcsin (clamp (vy d) (-1) 1) / PI + 0.5)
      in uBgTexture uv)"

section \<open>\<open>lib/blackhole/physics.ts\<close>\<close>

text \<open>\<open>Math.sqrt\<close> of a negative number is NaN; the model's \<open>sqrt\<close> is only meant on
  non-negative arguments, that is for \<open>\<bar>spin\<bar> \<le> 1\<close>.\<close>

definition schwarzschildRadius :: "real \<Rightarrow> real" where
  "schwarzschildRadius mass = 2 * mass"

definition kerrEventHorizon :: "real \<Rightarrow> real \<Rightarrow> real" where
  "kerrEventHorizon mass spin =
     (let a = spin * mass in mass + sqrt (mass * mass - a * a))"

section \<open>Auxiliary facts\<close>

lemma pow_5_2: "0 < x \<Longrightarrow> pow x (5 / 2) = sqrt x ^ 5"
proof -
  assume x: "0 < x"
  have "x powr (5 / 2) = (x powr (1/2)) powr 5" by (simp add: powr_powr)
  also have "\<dots> = sqrt x powr 5" using x by (simp add: powr_half_sqrt)
  also have "\<dots> = sqrt x ^ 5" using x by (simp add: powr_numeral)
  finally show ?thesis by (simp add: pow_def)
qed

lemma dot3_nonneg: "0 \<le> dot3 p p"
  by (simp add: dot3_def)

lemma scale3_scale3: "scale3 a (scale3 b p) = scale3 (a * b) p"
  by (simp add: scale3_def)

lemma length3_axis: "length3 (Vec3 a 0 0) = \<bar>a\<bar>"
  by (simp add: length3_def dot3_def)

section \<open>The acceleration law\<close>

text \<open>
  C2. The specified law is \<open>-1.5 * h2 * rhat / r^5\<close> with \<open>rhat = pos / r\<close>. The shader divides
  the position itself by \<open>r^5\<close>: for every position with \<open>|pos| \<ge> 1\<close> and every \<open>h2\<close>,
  \<open>accel\<close> returns \<open>-1.5 * h2 * pos / r^5\<close>, which is \<open>-1.5 * h2 * rhat / r^4\<close>.
\<close>

theorem accel_law:
  assumes "1 \<le> length3 p"
  shows "accel h2 p = scale3 (- 1.5 * h2 / length3 p ^ 5) p
       \<and> accel h2 p = scale3 (- 1.5 * h2 / length3 p ^ 4) (scale3 (1 / length3 p) p)"
proof -
  have pos: "0 < dot3 p p" using assms unfolding length3_def
    by (smt (verit) real_sqrt_le_0_iff real_sqrt_gt_0_iff dot3_nonneg)
  have r1: "\<not> dot3 p p < 1" using assms unfolding length3_def by simp
  have p5: "pow (dot3 p p) (5 / 2) = length3 p ^ 5"
    using pos by (simp add: pow_5_2 length3_def)
  have a: "accel h2 p = scale3 (- 1.5 * h2 / length3 p ^ 5) p"
    using r1 p5 by (simp add: accel_def Let_def scale3_def)
  have e: "length3 p ^ 5 = length3 p ^ 4 * length3 p" by (simp add: power_numeral_reduce)
  have "- 1.5 * h2 / length3 p ^ 4 * (1 / length3 p) = - 1.5 * h2 / length3 p ^ 5"
    unfolding e by simp
  then have b: "scale3 (- 1.5 * h2 / length3 p ^ 4) (scale3 (1 / length3 p) p)
             = scale3 (- 1.5 * h2 / length3 p ^ 5) p"
    unfolding scale3_scale3 by (rule arg_cong)
  show ?thesis using a b by simp
qed

theorem accel_law_witness:
  "1 \<le> length3 (Vec3 2 0 0) \<and> accel 1 (Vec3 2 0 0) = Vec3 (- (3 / 32)) 0 0"
  using accel_law [of "Vec3 2 0 0" 1] by (simp add: length3_axis scale3_def)

text \<open>At \<open>pos = (2, 0, 0)\<close> and \<open>h2 = 1\<close> the shader's value is \<open>-3/32\<close> along x, the specified
  formula's value is \<open>-3/64\<close>.\<close>

theorem accel_rhat_r5_counterexample:
  "1 \<le> length3 (Vec3 2 0 0) \<and> (0::real) \<le> 1 \<and>
   accel 1 (Vec3 2 0 0)
     \<noteq> scale3 (- 1.5 * 1 / length3 (Vec3 2 0 0) ^ 5)
               (scale3 (1 / length3 (Vec3 2 0 0)) (Vec3 2 0 0))"
proof -
  have "pow 4 (5 / 2) = sqrt 4 ^ 5" by (rule pow_5_2) simp
  moreover have "sqrt 4 = (2::real)" using real_sqrt_abs [of 2] by simp
  ultimately have "pow 4 (5 / 2) = 32" by simp
  then show ?thesis by (simp add: accel_def Let_def dot3_def length3_axis scale3_def)
qed

section \<open>Opacity is never written\<close>

lemma adiskColor_alpha: "snd (adiskColor U p (c, a)) = a"
  by (simp add: adiskColor_def Let_def)

lemma stepRay_alpha: "alpha (stepRay U h2 s) = alpha s"
  by (simp add: stepRay_def Let_def adiskColor_alpha)

lemma iterRay_alpha: "alpha (iterRay U h2 n s) = alpha s"
  by (induction n arbitrary: s) (simp_all add: stepRay_alpha)

text \<open>
  C8. \<open>adiskColor\<close> hands its \<open>alpha\<close> parameter back unchanged, \<open>traceColor\<close> starts the
  ray with \<open>alpha = 1\<close>, and after any number of passes through the loop body the ray's
  \<open>alpha\<close> is still 1; so every disk sample is weighted by \<open>alpha = 1\<close>.
\<close>

theorem alpha_never_modified:
  "snd (adiskColor U p (c, a)) = a
   \<and> alpha (initRay p0 d0) = 1
   \<and> alpha (iterRay U h2 n (initRay p0 d0)) = 1"
  by (simp add: adiskColor_alpha iterRay_alpha initRay_def)

section \<open>Disk samples only add light\<close>

lemma clamp01: "0 \<le> clamp x 0 1 \<and> clamp x 0 1 \<le> 1"
  by (simp add: clamp_def)

lemma smoothstep_range: "0 \<le> smoothstep a b x \<and> smoothstep a b x \<le> 1"
proof -
  define t where "t = clamp ((x - a) / (b - a)) 0 1"
  have t: "0 \<le> t" "t \<le> 1" using clamp01 by (simp_all add: t_def)
  have s: "smoothstep a b x = t * t * (3 - 2 * t)" by (simp add: smoothstep_def Let_def t_def)
  have "0 \<le> t * t * (3 - 2 * t)" using t by simp
  moreover have "1 - t * t * (3 - 2 * t) = (1 - t) * (1 - t) * (1 + 2 * t)"
    by (simp add: algebra_simps)
  moreover have "0 \<le> (1 - t) * (1 - t) * (1 + 2 * t)" using t by simp
  ultimately show ?thesis using s by linarith
qed

lemma pow_nonneg: "0 \<le> pow x y"
  by (simp add: pow_def)

lemma pow_le_one: "0 \<le> x \<Longrightarrow> x \<le> 1 \<Longrightarrow> 0 \<le> y \<Longrightarrow> pow x y \<le> 1"
  by (simp add: pow_def powr_le1)

lemma mix_nonneg: "0 \<le> a \<Longrightarrow> 0 \<le> b \<Longrightarrow> 0 \<le> t \<Longrightarrow> t \<le> 1 \<Longrightarrow> 0 \<le> mix a b t"
  by (simp add: mix_def)

lemma mix3_nonneg:
  "le3 (Vec3 0 0 0) a \<Longrightarrow> le3 (Vec3 0 0 0) b \<Longrightarrow> 0 \<le> t \<Longrightarrow> t \<le> 1
   \<Longrightarrow> le3 (Vec3 0 0 0) (mix3 a b t)"
  by (simp add: le3_def mix3_def mix_nonneg)

lemma scale3_nonneg: "0 \<le> k \<Longrightarrow> le3 (Vec3 0 0 0) a \<Longrightarrow> le3 (Vec3 0 0 0) (scale3 k a)"
  by (simp add: le3_def scale3_def)

lemma diskDensity0_nonneg: "0 \<le> diskDensity0 U p"
  by (simp add: diskDensity0_def)

lemma diskDensity_nonneg: "0 \<le> diskDensity U p"
proof -
  have "0 \<le> diskDensity1 U p"
    unfolding diskDensity1_def using diskDensity0_nonneg smoothstep_range pow_nonneg by simp
  then show ?thesis unfolding diskDensity_def using pow_nonneg by simp
qed

lemma diskEmission_nonneg: "le3 (Vec3 0 0 0) (diskEmission U p)"
proof -
  define r where "r = length2 (Vec2 (vx p) (vz p))"
  define temp where "temp = pow (smoothstep (uDiskOuter U) (uDiskInner U) r) 0.75"
  define dop where
    "dop = sin (atan2 (vz p) (vx p) - uTime U * uDiskRotationSpeed U * (1 / sqrt (max r 0.1)))"
  define base where
    "base = (if dop > 0 then mix3 (Vec3 1.2 1 0.7) (Vec3 0.3 0.6 2) dop
             else mix3 (Vec3 1.2 1 0.7) (Vec3 2 0.3 0.05) (- dop))"
  have e: "diskEmission U p =
      scale3 ((temp * 12 + 2) * (1 + dop * 0.7)) (mix3 base (Vec3 1.8 1.6 1.4) (temp * 0.8))"
    by (simp add: diskEmission_def Let_def r_def temp_def dop_def base_def)
  have t0: "0 \<le> temp" by (simp add: temp_def pow_nonneg)
  have t1: "temp \<le> 1" unfolding temp_def using smoothstep_range by (intro pow_le_one) simp_all
  have d: "-1 \<le> dop" "dop \<le> 1" by (simp_all add: dop_def)
  have b: "le3 (Vec3 0 0 0) base"
  proof (cases "dop > 0")
    case True
    then have "base = mix3 (Vec3 1.2 1 0.7) (Vec3 0.3 0.6 2) dop" by (simp add: base_def)
    moreover have "le3 (Vec3 0 0 0) (mix3 (Vec3 1.2 1 0.7) (Vec3 0.3 0.6 2) dop)"
      using True d by (intro mix3_nonneg) (simp_all add: le3_def)
    ultimately show ?thesis by simp
  next
    case False
    then have "base = mix3 (Vec3 1.2 1 0.7) (Vec3 2 0.3 0.05) (- dop)" by (simp add: base_def)
    moreover have "le3 (Vec3 0 0 0) (mix3 (Vec3 1.2 1 0.7) (Vec3 2 0.3 0.05) (- dop))"
      using False d by (intro mix3_nonneg) (simp_all add: le3_def)
    ultimately show ?thesis by simp
  qed
  have m: "le3 (Vec3 0 0 0) (mix3 base (Vec3 1.8 1.6 1.4) (temp * 0.8))"
    using b t0 t1 by (intro mix3_nonneg) (simp_all add: le3_def)
  have k: "0 \<le> (temp * 12 + 2) * (1 + dop * 0.7)" using t0 d by simp
  show ?thesis unfolding e using k m by (rule scale3_nonneg)
qed

lemma adiskColor_adds: "0 \<le> a \<Longrightarrow> le3 c (fst (adiskColor U p (c, a)))"
proof -
  assume a: "0 \<le> a"
  have k: "0 \<le> diskDensity U p * 0.8 * a * \<bar>diskNoise U p\<bar>"
    using a diskDensity_nonneg [of U p] by simp
  have "le3 (Vec3 0 0 0)
          (scale3 (diskDensity U p * 0.8 * a * \<bar>diskNoise U p\<bar>) (diskEmission U p))"
    using k diskEmission_nonneg by (rule scale3_nonneg)
  then have "le3 c (add3 c
          (scale3 (diskDensity U p * 0.8 * a * \<bar>diskNoise U p\<bar>) (diskEmission U p)))"
    by (simp add: le3_def add3_def)
  then show ?thesis by (simp add: adiskColor_def Let_def le3_def)
qed

lemma stepRay_color: "color (stepRay U h2 s) = fst (adiskColor U (pos s) (color s, alpha s))"
  by (simp add: stepRay_def Let_def)

lemma iterRay_Suc: "iterRay U h2 (Suc n) s = stepRay U h2 (iterRay U h2 n s)"
  by (induction n arbitrary: s) simp_all

text \<open>
  C10. Along the loop of \<open>traceColor\<close> the accumulated colour never decreases in any
  component: the colour after \<open>n + 1\<close> passes through the body is componentwise at least
  the colour after \<open>n\<close> passes. The density is a product of non-negative factors, the
  beaming factor is at least 0.3, the mixed anchor colours are non-negative, and the
  weight \<open>alpha\<close> is 1.
\<close>

theorem color_nondecreasing:
  "le3 (color (iterRay U h2 n (initRay p0 d0)))
       (color (iterRay U h2 (Suc n) (initRay p0 d0)))"
proof -
  have a: "alpha (iterRay U h2 n (initRay p0 d0)) = 1" by (simp add: iterRay_alpha initRay_def)
  show ?thesis unfolding iterRay_Suc stepRay_color a by (rule adiskColor_adds) simp
qed

section \<open>The horizon radius at zero spin\<close>

text \<open>
  C3. For \<open>spin = 0\<close> and mass \<open>M > 0\<close> the reduced formula of \<open>traceColor\<close> and the
  TypeScript \<open>kerrEventHorizon\<close> give \<open>2M\<close>. The lensing shader's \<open>kerrEventHorizon\<close>
  first raises the mass to at least 0.0001, so it gives \<open>2 * max(M, 0.0001)\<close>: that is
  \<open>2M\<close> for every \<open>M \<ge> 0.0001\<close>.
\<close>

theorem horizon_at_spin_zero:
  assumes "uSpin U = 0" and "0 < uMass U"
  shows "eventHorizon U = 2 * uMass U
       \<and> kerrEventHorizon (uMass U) (uSpin U) = 2 * uMass U
       \<and> kerrEventHorizon_glsl U = 2 * max (uMass U) 0.0001
       \<and> (0.0001 \<le> uMass U \<longrightarrow> kerrEventHorizon_glsl U = 2 * uMass U)"
proof -
  have a: "eventHorizon U = 2 * uMass U" using assms by (simp add: eventHorizon_def)
  have b: "kerrEventHorizon (uMass U) (uSpin U) = 2 * uMass U"
    using assms by (simp add: kerrEventHorizon_def)
  have m: "0 < max (uMass U) 0.0001" by simp
  have "sqrt (max (uMass U) 0.0001 * max (uMass U) 0.0001) = max (uMass U) 0.0001"
    using m real_sqrt_abs2 [of "max (uMass U) 0.0001"] by linarith
  then have c: "kerrEventHorizon_glsl U = 2 * max (uMass U) 0.0001"
    using assms by (simp add: kerrEventHorizon_glsl_def Let_def clamp_def max.absorb1)
  have d: "0.0001 \<le> uMass U \<longrightarrow> kerrEventHorizon_glsl U = 2 * uMass U"
    unfolding c by (simp add: max_def)
  show ?thesis using a b c d by simp
qed

theorem horizon_at_spin_zero_witness:
  "uSpin (uniformsOf 1 0 3 9 0.3 0) = 0 \<and> 0 < uMass (uniformsOf 1 0 3 9 0.3 0)
   \<and> eventHorizon (uniformsOf 1 0 3 9 0.3 0) = 2
   \<and> kerrEventHorizon 1 0 = 2
   \<and> kerrEventHorizon_glsl (uniformsOf 1 0 3 9 0.3 0) = 2"
  using horizon_at_spin_zero [of "uniformsOf 1 0 3 9 0.3 0"] by simp

text \<open>At \<open>M = 0.00005\<close> the lensing shader's radius is \<open>0.0002\<close>, not \<open>2M = 0.0001\<close>.\<close>

theorem horizon_small_mass_counterexample:
  "uSpin (uniformsOf 0.00005 0 3 9 0.3 0) = 0 \<and> 0 < uMass (uniformsOf 0.00005 0 3 9 0.3 0)
   \<and> kerrEventHorizon_glsl (uniformsOf 0.00005 0 3 9 0.3 0)
       \<noteq> 2 * uMass (uniformsOf 0.00005 0 3 9 0.3 0)"
proof -
  have "sqrt (0.0001 * 0.0001) = (0.0001::real)" using real_sqrt_abs2 [of "0.0001"] by simp
  then show ?thesis by (simp add: kerrEventHorizon_glsl_def Let_def clamp_def)
qed

section \<open>Direction length after a step\<close>

lemma length3_scale3: "length3 (scale3 k v) = \<bar>k\<bar> * length3 v"
proof -
  have "dot3 (scale3 k v) (scale3 k v) = k^2 * dot3 v v"
    by (simp add: dot3_def scale3_def power2_eq_square algebra_simps)
  then show ?thesis by (simp add: length3_def real_sqrt_mult)
qed

lemma length3_zero_iff: "length3 v = 0 \<longleftrightarrow> v = Vec3 0 0 0"
proof -
  have "dot3 v v = 0 \<longleftrightarrow> vx v = 0 \<and> vy v = 0 \<and> vz v = 0"
    unfolding dot3_def
    by (smt (verit) mult_eq_0_iff zero_le_square add_nonneg_eq_0_iff add_nonneg_nonneg)
  then show ?thesis by (cases v) (simp add: length3_def)
qed

lemma length3_nonneg: "0 \<le> length3 v"
  by (simp add: length3_def dot3_nonneg)

lemma length3_normalize: "v \<noteq> Vec3 0 0 0 \<Longrightarrow> length3 (normalize v) = 1"
proof -
  assume "v \<noteq> Vec3 0 0 0"
  then have "0 < length3 v" using length3_zero_iff [of v] length3_nonneg [of v] by linarith
  then show ?thesis by (simp add: normalize_def length3_scale3)
qed

lemmas vec3_ops = add3_def sub3_def mul3_def scale3_def splat3_def dot3_def

lemma rk4_radial: "rk4Update (Vec3 10 0 0) (Vec3 3 0 0) 0.1 = (Vec3 10.3 0 0, Vec3 3 0 0)"
  by (simp add: rk4Update_def Let_def geodesicAcceleration_def length3_axis metricCoeff_def
         SCHWARZSCHILD_RADIUS_def vec3_ops cong: let_weak_cong)

text \<open>
  C6. Only the RK4 integrator of the lensing shader re-normalises: \<open>rk4Step\<close> returns a
  velocity of length 1 whenever the velocity it has integrated is not the zero vector.
  The loop of \<open>traceColor\<close> adds the acceleration to \<open>dir\<close> and leaves its length as it
  comes out; it normalises only the copy handed to \<open>sampleBackground\<close>.
\<close>

theorem rk4Step_unit_velocity:
  assumes "snd (rk4Update p vel dt) \<noteq> Vec3 0 0 0"
  shows "length3 (snd (rk4Step p vel dt)) = 1"
  using assms by (simp add: rk4Step_def split_def length3_normalize)

theorem rk4Step_unit_velocity_witness:
  "snd (rk4Update (Vec3 10 0 0) (Vec3 3 0 0) 0.1) \<noteq> Vec3 0 0 0
   \<and> length3 (snd (rk4Step (Vec3 10 0 0) (Vec3 3 0 0) 0.1)) = 1"
  using rk4Step_unit_velocity [of "Vec3 10 0 0" "Vec3 3 0 0" "0.1"] by (simp add: rk4_radial)

text \<open>A ray of \<open>traceColor\<close> from \<open>(0, 2, 0)\<close> with unit direction \<open>(1, 0, 0)\<close>: after the
  first pass through the loop body \<open>dir\<close> is \<open>(0.1, -0.00375, 0)\<close>, of length about 0.1.\<close>

theorem kerr_direction_not_unit_counterexample:
  "length3 (Vec3 1 0 0) = 1
   \<and> length3 (dir (stepRay (uniformsOf 1 0 3 9 0.3 0) (angularMomentum2 (initRay (Vec3 0 2 0) (Vec3 1 0 0)))
                     (initRay (Vec3 0 2 0) (Vec3 1 0 0)))) \<noteq> 1"
proof -
  have "pow 4 (5 / 2) = sqrt 4 ^ 5" by (rule pow_5_2) simp
  moreover have "sqrt 4 = (2::real)" using real_sqrt_abs [of 2] by simp
  ultimately have p: "pow 4 (5 / 2) = 32" "sqrt 4 = (2::real)" by simp_all
  have h: "angularMomentum2 (initRay (Vec3 0 2 0) (Vec3 1 0 0)) = 1 / 25"
    by (simp add: angularMomentum2_def initRay_def STEP_SIZE_def cross_def vec3_ops)
  have a: "accel (1 / 25) (Vec3 0 2 0) = Vec3 0 (- (3 / 800)) 0"
    unfolding accel_def Let_def using p by (simp add: vec3_ops)
  have d: "dir (stepRay (uniformsOf 1 0 3 9 0.3 0) (1 / 25) (initRay (Vec3 0 2 0) (Vec3 1 0 0)))
             = Vec3 (1 / 10) (- (3 / 800)) 0"
    unfolding stepRay_def Let_def by (simp add: initRay_def a STEP_SIZE_def vec3_ops)
  show ?thesis unfolding h d by (simp add: length3_def vec3_ops)
qed

section \<open>Background coordinates\<close>

lemma rotateVector_zero_angle: "rotateVector d (Vec3 0 1 0) 0 = d"
  by (cases d)
     (simp add: rotateVector_def quadFromAxisAngle_def quadConj_def quat_mult_def Let_def)

text \<open>
  C7. With \<open>\<pi>\<close> read as the shader constant \<open>PI\<close>: the lensing shader's
  \<open>sampleBackground\<close> looks the texture up at \<open>u = atan2(d.z, d.x) / (2 PI) + 0.5\<close>,
  \<open>v = asin(clamp(d.y, -1, 1)) / PI + 0.5\<close>. The Kerr shaders' \<open>sampleBackground\<close> first
  rotates \<open>d\<close> about the y axis by \<open>uTime * 10\<close> degrees and then uses the mirrored
  coordinates \<open>0.5 - atan2(d'.z, d'.x) / (2 PI)\<close>, \<open>0.5 - asin(clamp(d'.y, -1, 1)) / PI\<close> of
  the rotated direction \<open>d'\<close>; at \<open>uTime = 0\<close> these are \<open>1 - u\<close> and \<open>1 - v\<close>.
\<close>

theorem background_coordinates:
  "sampleBackground_tex tex d
     = tex (Vec2 (atan2 (vz d) (vx d) / (2 * PI) + 0.5) (arcsin (clamp (vy d) (-1) 1) / PI + 0.5))
   \<and> backgroundUV U d
     = Vec2 (0.5 - atan2 (vz (rotateVector d (Vec3 0 1 0) (uTime U * 10)))
                         (vx (rotateVector d (Vec3 0 1 0) (uTime U * 10))) / (2 * PI))
            (0.5 - arcsin (clamp (vy (rotateVector d (Vec3 0 1 0) (uTime U * 10))) (-1) 1) / PI)
   \<and> (uTime U = 0 \<longrightarrow>
        backgroundUV U d
          = Vec2 (1 - (atan2 (vz d) (vx d) / (2 * PI) + 0.5))
                 (1 - (arcsin (clamp (vy d) (-1) 1) / PI + 0.5)))"
  by (simp add: sampleBackground_tex_def backgroundUV_def Let_def rotateVector_zero_angle)

theorem background_coordinates_witness:
  "uTime (uniformsOf 1 0 3 9 0.3 0) = 0
   \<and> backgroundUV (uniformsOf 1 0 3 9 0.3 0) (Vec3 0 0 1)
       = Vec2 (1 - (pi / 2 / (2 * PI) + 0.5)) 0.5"
  using background_coordinates [of "\<lambda>uv. Vec3 0 0 0" "Vec3 0 0 1" "uniformsOf 1 0 3 9 0.3 0",
      THEN conjunct2, THEN conjunct2]
  by (simp add: atan2_def clamp_def)

text \<open>For the unit direction \<open>(0, 0, 1)\<close> at \<open>uTime = 0\<close> the Kerr shader's \<open>u\<close> is below
  one half, the specified \<open>u\<close> above.\<close>

theorem kerr_background_uv_counterexample:
  "length3 (Vec3 0 0 1) = 1
   \<and> backgroundUV (uniformsOf 1 0 3 9 0.3 0) (Vec3 0 0 1)
       \<noteq> Vec2 (atan2 1 0 / (2 * PI) + 0.5) (arcsin (clamp 0 (-1) 1) / PI + 0.5)"
proof -
  have "PI > 0" by (simp add: PI_def)
  then have "pi / 2 / (2 * PI) > 0" "PI \<noteq> 0" by simp_all
  then show ?thesis
    by (simp add: backgroundUV_def Let_def rotateVector_zero_angle atan2_def clamp_def
          length3_def dot3_def)
qed

section \<open>Runs of the two ray loops\<close>

lemma traceLoop_active:
  "activeFor U h2 n s \<Longrightarrow> traceLoop U h2 (n + m) s = traceLoop U h2 m (iterRay U h2 n s)"
  by (induction n arbitrary: s) (simp_all add: active_def absorbed_def Let_def)

lemma marchLoop_marching:
  "marchingFor U n pv \<Longrightarrow>
   marchLoop U (n + m) (fst pv) (snd pv)
     = marchLoop U m (fst (iterMarch n pv)) (snd (iterMarch n pv))"
  by (induction n arbitrary: pv) (simp_all add: marching_def Let_def split_def)

lemma traceColor_absorbed:
  assumes "n < MAX_STEPS"
    and "activeFor U (angularMomentum2 (initRay p d)) n (initRay p d)"
    and "absorbed U (iterRay U (angularMomentum2 (initRay p d)) n (initRay p d))"
  shows "traceColor U p d = color (iterRay U (angularMomentum2 (initRay p d)) n (initRay p d))"
proof -
  let ?h = "angularMomentum2 (initRay p d)"
  from assms(1) have "\<exists>m. MAX_STEPS = Suc (n + m)" by (rule less_imp_Suc_add)
  then obtain m where "MAX_STEPS = Suc (n + m)" ..
  then have m: "MAX_STEPS = n + Suc m" by simp
  have "traceLoop U ?h (n + Suc m) (initRay p d)
          = traceLoop U ?h (Suc m) (iterRay U ?h n (initRay p d))"
    using assms(2) by (rule traceLoop_active)
  also have "\<dots> = color (iterRay U ?h n (initRay p d))"
    using assms(3) by (simp add: absorbed_def Let_def)
  finally have "traceLoop U ?h MAX_STEPS (initRay p d) = color (iterRay U ?h n (initRay p d))"
    unfolding m .
  then show ?thesis unfolding traceColor_def Let_def .
qed

lemma marchLoop_absorbed:
  assumes "k < MAX_STEPS_gl" and "marchingFor U k pv"
    and "length3 (fst (iterMarch k pv)) < SCHWARZSCHILD_RADIUS * 1.05"
  shows "marchLoop U MAX_STEPS_gl (fst pv) (snd pv) = Vec3 0 0 0"
proof -
  from assms(1) have "\<exists>m. MAX_STEPS_gl = Suc (k + m)" by (rule less_imp_Suc_add)
  then obtain m where "MAX_STEPS_gl = Suc (k + m)" ..
  then have m: "MAX_STEPS_gl = k + Suc m" by simp
  have "marchLoop U (k + Suc m) (fst pv) (snd pv)
          = marchLoop U (Suc m) (fst (iterMarch k pv)) (snd (iterMarch k pv))"
    using assms(2) by (rule marchLoop_marching)
  also have "\<dots> = Vec3 0 0 0" using assms(3) by (simp add: Let_def)
  finally show ?thesis unfolding m .
qed

subsection \<open>Radial rays\<close>

text \<open>A ray along the x axis has zero angular momentum and feels no acceleration in
  either shader; these facts evaluate the loops on such rays.\<close>

lemma length2_axis: "length2 (Vec2 a 0) = \<bar>a\<bar>"
  by (simp add: length2_def)

lemma geodesic_radial:
  assumes "0 < y"
  shows "geodesicAcceleration (Vec3 y 0 0) (Vec3 v 0 0) = Vec3 0 0 0"
proof -
  have r: "length3 (Vec3 y 0 0) = y" using assms by (simp add: length3_axis)
  have rhat: "scale3 (1 / y) (Vec3 y 0 0) = Vec3 1 0 0" using assms by (simp add: scale3_def)
  have vr: "dot3 (Vec3 v 0 0) (Vec3 1 0 0) = v" by (simp add: dot3_def)
  have z1: "dot3 (Vec3 v 0 0) (Vec3 v 0 0) - v * v = 0" by (simp add: dot3_def)
  have z2: "sub3 (Vec3 v 0 0) (scale3 v (Vec3 1 0 0)) = Vec3 0 0 0"
    by (simp add: sub3_def scale3_def)
  show ?thesis
    unfolding geodesicAcceleration_def Let_def r rhat vr z1 z2
    by (simp add: scale3_def add3_def splat3_def)
qed

lemma rk4Update_radial:
  assumes "0 < x" and "0 < x + 0.5 * dt * v" and "0 < x + dt * v"
  shows "rk4Update (Vec3 x 0 0) (Vec3 v 0 0) dt = (Vec3 (x + dt * v) 0 0, Vec3 v 0 0)"
proof -
  have g: "\<And>y. 0 < y \<Longrightarrow> geodesicAcceleration (Vec3 y 0 0) (Vec3 v 0 0) = Vec3 0 0 0"
    by (rule geodesic_radial)
  have k1: "geodesicAcceleration (Vec3 x 0 0) (Vec3 v 0 0) = Vec3 0 0 0"
    using assms(1) by (rule g)
  have p2: "add3 (Vec3 x 0 0) (scale3 (0.5 * dt) (Vec3 v 0 0)) = Vec3 (x + 0.5 * dt * v) 0 0"
    by (simp add: add3_def scale3_def)
  have v0: "\<And>k. add3 (Vec3 v 0 0) (scale3 k (Vec3 0 0 0)) = Vec3 v 0 0"
    by (simp add: add3_def scale3_def)
  have k2: "geodesicAcceleration (Vec3 (x + 0.5 * dt * v) 0 0) (Vec3 v 0 0) = Vec3 0 0 0"
    using assms(2) by (rule g)
  have p4: "add3 (Vec3 x 0 0) (scale3 dt (Vec3 v 0 0)) = Vec3 (x + dt * v) 0 0"
    by (simp add: add3_def scale3_def)
  have k4: "geodesicAcceleration (Vec3 (x + dt * v) 0 0) (Vec3 v 0 0) = Vec3 0 0 0"
    using assms(3) by (rule g)
  have u: "rk4Update (Vec3 x 0 0) (Vec3 v 0 0) dt
             = (add3 (Vec3 x 0 0) (scale3 (dt / 6)
                  (add3 (add3 (add3 (Vec3 v 0 0) (scale3 2 (Vec3 v 0 0))) (scale3 2 (Vec3 v 0 0)))
                     (Vec3 v 0 0))),
                add3 (Vec3 v 0 0) (scale3 (dt / 6)
                  (add3 (add3 (add3 (Vec3 0 0 0) (scale3 2 (Vec3 0 0 0))) (scale3 2 (Vec3 0 0 0)))
                     (Vec3 0 0 0))))"
    unfolding rk4Update_def Let_def k1 v0 p2 k2 p4 k4 by (rule refl)
  show ?thesis unfolding u by (simp add: add3_def scale3_def algebra_simps)
qed

lemma rk4_radial_out:
  assumes "0 < x"
  shows "rk4Step (Vec3 x 0 0) (Vec3 1 0 0) STEP_SIZE_gl = (Vec3 (x + 0.1) 0 0, Vec3 1 0 0)"
proof -
  have "rk4Update (Vec3 x 0 0) (Vec3 1 0 0) STEP_SIZE_gl
          = (Vec3 (x + STEP_SIZE_gl * 1) 0 0, Vec3 1 0 0)"
    using assms by (intro rk4Update_radial) (simp_all add: STEP_SIZE_gl_def)
  then show ?thesis
    by (simp add: rk4Step_def normalize_def length3_axis scale3_def STEP_SIZE_gl_def)
qed

lemma kerr_radial_step:
  assumes "10 \<le> x"
  shows "stepRay (uniformsOf 1 0 3 9 0.3 0) 0
           \<lparr> pos = Vec3 x 0 0, dir = Vec3 0.1 0 0, color = c, alpha = a \<rparr>
         = \<lparr> pos = Vec3 (x + 0.1) 0 0, dir = Vec3 0.1 0 0, color = c, alpha = a \<rparr>"
proof -
  have d: "diskDensity0 (uniformsOf 1 0 3 9 0.3 0) (Vec3 x 0 0) = 0"
    using assms by (simp add: diskDensity0_def ellipsoidRadius_def div3_def length3_axis)
  have ac: "accel 0 (Vec3 x 0 0) = Vec3 0 0 0"
    using assms by (simp add: accel_def Let_def dot3_def splat3_def)
  show ?thesis by (simp add: stepRay_def Let_def adiskColor_def d ac add3_def)
qed

lemma kerr_radial_run:
  assumes "10 \<le> x" and "x + 0.1 * real n \<le> 100"
  shows "activeFor (uniformsOf 1 0 3 9 0.3 0) 0 n
           \<lparr> pos = Vec3 x 0 0, dir = Vec3 0.1 0 0, color = c, alpha = a \<rparr>
       \<and> iterRay (uniformsOf 1 0 3 9 0.3 0) 0 n
           \<lparr> pos = Vec3 x 0 0, dir = Vec3 0.1 0 0, color = c, alpha = a \<rparr>
           = \<lparr> pos = Vec3 (x + 0.1 * real n) 0 0, dir = Vec3 0.1 0 0, color = c, alpha = a \<rparr>"
  using assms
proof (induction n arbitrary: x)
  case 0
  then show ?case by simp
next
  case (Suc n)
  have x: "10 \<le> x + 0.1" "x + 0.1 + 0.1 * real n \<le> 100"
    using Suc.prems by (simp_all add: add_divide_distrib)
  have "0 \<le> 0.1 * real (Suc n)" by simp
  then have x100: "x \<le> 100" using Suc.prems(2) by linarith
  have act: "active (uniformsOf 1 0 3 9 0.3 0)
               \<lparr> pos = Vec3 x 0 0, dir = Vec3 0.1 0 0, color = c, alpha = a \<rparr>"
    using Suc.prems(1) x100 by (simp add: active_def absorbed_def eventHorizon_def length3_axis)
  show ?case using Suc.IH [OF x] act Suc.prems(1)
    by (simp add: kerr_radial_step add_divide_distrib add.assoc)
qed

lemma lensing_radial_run:
  assumes "10 \<le> x" and "x + 0.1 * real n \<le> 100"
  shows "marchingFor (uniformsOf 1 0 3 9 0.3 0) n (Vec3 x 0 0, Vec3 1 0 0)
       \<and> iterMarch n (Vec3 x 0 0, Vec3 1 0 0) = (Vec3 (x + 0.1 * real n) 0 0, Vec3 1 0 0)"
  using assms
proof (induction n arbitrary: x)
  case 0
  then show ?case by simp
next
  case (Suc n)
  have x: "10 \<le> x + 0.1" "x + 0.1 + 0.1 * real n \<le> 100"
    using Suc.prems by (simp_all add: add_divide_distrib)
  have "0 \<le> 0.1 * real (Suc n)" by simp
  then have x100: "x \<le> 100" using Suc.prems(2) by linarith
  have m: "marching (uniformsOf 1 0 3 9 0.3 0) (Vec3 x 0 0)"
    using Suc.prems(1) x100
    by (simp add: marching_def SCHWARZSCHILD_RADIUS_def length3_axis intersectDisk_def
          length2_axis Let_def)
  have r: "rk4Step (Vec3 x 0 0) (Vec3 1 0 0) STEP_SIZE_gl = (Vec3 (x + 0.1) 0 0, Vec3 1 0 0)"
    using Suc.prems(1) by (intro rk4_radial_out) simp
  show ?case using Suc.IH [OF x] m
    by (simp add: r add_divide_distrib add.assoc)
qed

section \<open>Exhausting the step budget\<close>

text \<open>
  C4. A ray that is still active after all \<open>MAX_STEPS\<close> passes of \<open>traceColor\<close>'s loop
  gets \<open>color + sampleBackground(normalize(dir)) * alpha\<close>, taken at the state the last
  pass leaves: the background sampled at the ray's final direction, weighted by the
  opacity and added to the accumulated colour. The escape branch \<open>r > 100\<close> returns the
  same expression of the state it is taken in, so the two results are computed
  identically. In \<open>gravitational_lensing.glsl\<close> a ray that is still marching after all
  256 steps gets \<open>sampleBackground(normalize(vel))\<close> at its final velocity, which is
  also what its branch \<open>r > 100\<close> assigns. Either loop returns a colour in every case;
  there is no failure value.
\<close>

theorem budget_exhaustion_as_escape:
  "(activeFor U h2 MAX_STEPS s
     \<longrightarrow> traceLoop U h2 MAX_STEPS s
           = add3 (color (iterRay U h2 MAX_STEPS s))
                  (scale3 (alpha (iterRay U h2 MAX_STEPS s))
                     (sampleBackground U (normalize (dir (iterRay U h2 MAX_STEPS s))))))
   \<and> (escaped U e
     \<longrightarrow> traceLoop U h2 (Suc m) e
           = add3 (color e) (scale3 (alpha e) (sampleBackground U (normalize (dir e)))))
   \<and> (marchingFor U MAX_STEPS_gl pv
     \<longrightarrow> marchLoop U MAX_STEPS_gl (fst pv) (snd pv)
           = sampleBackground_gl (normalize (snd (iterMarch MAX_STEPS_gl pv))))
   \<and> (\<not> length3 q < SCHWARZSCHILD_RADIUS * 1.05 \<and> length3 q > 100
     \<longrightarrow> marchLoop U (Suc m') q vel = sampleBackground_gl (normalize vel))"
proof (intro conjI impI)
  assume "activeFor U h2 MAX_STEPS s"
  then have "traceLoop U h2 (MAX_STEPS + 0) s = traceLoop U h2 0 (iterRay U h2 MAX_STEPS s)"
    by (rule traceLoop_active)
  then show "traceLoop U h2 MAX_STEPS s
           = add3 (color (iterRay U h2 MAX_STEPS s))
                  (scale3 (alpha (iterRay U h2 MAX_STEPS s))
                     (sampleBackground U (normalize (dir (iterRay U h2 MAX_STEPS s)))))"
    by simp
next
  assume "escaped U e"
  then show "traceLoop U h2 (Suc m) e
           = add3 (color e) (scale3 (alpha e) (sampleBackground U (normalize (dir e))))"
    by (simp add: escaped_def absorbed_def Let_def)
next
  assume "marchingFor U MAX_STEPS_gl pv"
  then have "marchLoop U (MAX_STEPS_gl + 0) (fst pv) (snd pv)
      = marchLoop U 0 (fst (iterMarch MAX_STEPS_gl pv)) (snd (iterMarch MAX_STEPS_gl pv))"
    by (rule marchLoop_marching)
  then show "marchLoop U MAX_STEPS_gl (fst pv) (snd pv)
           = sampleBackground_gl (normalize (snd (iterMarch MAX_STEPS_gl pv)))"
    by simp
next
  assume "\<not> length3 q < SCHWARZSCHILD_RADIUS * 1.05 \<and> length3 q > 100"
  then show "marchLoop U (Suc m') q vel = sampleBackground_gl (normalize vel)"
    by (simp add: Let_def)
qed

text \<open>
  A ray of the Kerr shader at \<open>(50, 0, 0)\<close> moving outwards along x with accumulated
  colour \<open>(0.2, 0.1, 0.05)\<close> is at \<open>x = 80\<close> after 300 further passes, still active, and
  gets that colour plus the background in direction \<open>(1, 0, 0)\<close>; the same state at
  \<open>x = 101\<close> takes the escape branch with the same result. In the lensing shader the
  ray from \<open>(50, 0, 0)\<close> is at \<open>x = 75.6\<close> after 256 steps and gets the background in
  direction \<open>(1, 0, 0)\<close>, as the ray at \<open>x = 101\<close> does by the escape branch.
\<close>

theorem budget_exhaustion_as_escape_witness:
  "activeFor (uniformsOf 1 0 3 9 0.3 0) 0 MAX_STEPS
      \<lparr> pos = Vec3 50 0 0, dir = Vec3 0.1 0 0, color = Vec3 0.2 0.1 0.05, alpha = 1 \<rparr>
   \<and> traceLoop (uniformsOf 1 0 3 9 0.3 0) 0 MAX_STEPS
        \<lparr> pos = Vec3 50 0 0, dir = Vec3 0.1 0 0, color = Vec3 0.2 0.1 0.05, alpha = 1 \<rparr>
       = add3 (Vec3 0.2 0.1 0.05)
              (scale3 1 (sampleBackground (uniformsOf 1 0 3 9 0.3 0) (Vec3 1 0 0)))
   \<and> escaped (uniformsOf 1 0 3 9 0.3 0)
        \<lparr> pos = Vec3 101 0 0, dir = Vec3 0.1 0 0, color = Vec3 0.2 0.1 0.05, alpha = 1 \<rparr>
   \<and> traceLoop (uniformsOf 1 0 3 9 0.3 0) 0 (Suc 0)
        \<lparr> pos = Vec3 101 0 0, dir = Vec3 0.1 0 0, color = Vec3 0.2 0.1 0.05, alpha = 1 \<rparr>
       = add3 (Vec3 0.2 0.1 0.05)
              (scale3 1 (sampleBackground (uniformsOf 1 0 3 9 0.3 0) (Vec3 1 0 0)))
   \<and> marchingFor (uniformsOf 1 0 3 9 0.3 0) MAX_STEPS_gl (Vec3 50 0 0, Vec3 1 0 0)
   \<and> marchLoop (uniformsOf 1 0 3 9 0.3 0) MAX_STEPS_gl (Vec3 50 0 0) (Vec3 1 0 0)
       = sampleBackground_gl (Vec3 1 0 0)
   \<and> \<not> length3 (Vec3 101 0 0) < SCHWARZSCHILD_RADIUS * 1.05 \<and> length3 (Vec3 101 0 0) > 100
   \<and> marchLoop (uniformsOf 1 0 3 9 0.3 0) (Suc 0) (Vec3 101 0 0) (Vec3 1 0 0)
       = sampleBackground_gl (Vec3 1 0 0)"
proof -
  let ?U = "uniformsOf 1 0 3 9 0.3 0"
  let ?s = "\<lparr> pos = Vec3 50 0 0, dir = Vec3 0.1 0 0, color = Vec3 0.2 0.1 0.05, alpha = 1 \<rparr>"
  let ?e = "\<lparr> pos = Vec3 101 0 0, dir = Vec3 0.1 0 0, color = Vec3 0.2 0.1 0.05, alpha = 1 \<rparr>"
  have k: "activeFor ?U 0 MAX_STEPS ?s
         \<and> iterRay ?U 0 MAX_STEPS ?s
             = \<lparr> pos = Vec3 (50 + 0.1 * real MAX_STEPS) 0 0, dir = Vec3 0.1 0 0,
                 color = Vec3 0.2 0.1 0.05, alpha = 1 \<rparr>"
    by (rule kerr_radial_run) (simp_all add: MAX_STEPS_def)
  have e: "escaped ?U ?e"
    by (simp add: escaped_def absorbed_def eventHorizon_def length3_axis)
  have l: "marchingFor ?U MAX_STEPS_gl (Vec3 50 0 0, Vec3 1 0 0)
         \<and> iterMarch MAX_STEPS_gl (Vec3 50 0 0, Vec3 1 0 0)
             = (Vec3 (50 + 0.1 * real MAX_STEPS_gl) 0 0, Vec3 1 0 0)"
    by (rule lensing_radial_run) (simp_all add: MAX_STEPS_gl_def)
  have q: "\<not> length3 (Vec3 101 0 0) < SCHWARZSCHILD_RADIUS * 1.05 \<and> length3 (Vec3 101 0 0) > 100"
    by (simp add: length3_axis SCHWARZSCHILD_RADIUS_def)
  have n1: "normalize (Vec3 0.1 0 0) = Vec3 1 0 0"
    by (simp add: normalize_def length3_axis scale3_def)
  have n2: "normalize (Vec3 1 0 0) = Vec3 1 0 0"
    by (simp add: normalize_def length3_axis scale3_def)
  have fin: "dir (iterRay ?U 0 MAX_STEPS ?s) = Vec3 0.1 0 0"
            "color (iterRay ?U 0 MAX_STEPS ?s) = Vec3 0.2 0.1 0.05"
            "alpha (iterRay ?U 0 MAX_STEPS ?s) = 1"
    using k by simp_all
  have sv: "snd (iterMarch MAX_STEPS_gl (Vec3 50 0 0, Vec3 1 0 0)) = Vec3 1 0 0"
    using l by simp
  note inst = budget_exhaustion_as_escape
         [of ?U 0 ?s ?e 0 "(Vec3 50 0 0, Vec3 1 0 0)" "Vec3 101 0 0" 0 "Vec3 1 0 0"]
  have r1: "traceLoop ?U 0 MAX_STEPS ?s
      = add3 (Vec3 0.2 0.1 0.05) (scale3 1 (sampleBackground ?U (Vec3 1 0 0)))"
    using inst [THEN conjunct1] k unfolding fin n1 by blast
  have r2: "traceLoop ?U 0 (Suc 0) ?e
      = add3 (Vec3 0.2 0.1 0.05) (scale3 1 (sampleBackground ?U (Vec3 1 0 0)))"
    using inst [THEN conjunct2, THEN conjunct1] e unfolding ray.simps n1 by blast
  have r3: "marchLoop ?U MAX_STEPS_gl (Vec3 50 0 0) (Vec3 1 0 0)
      = sampleBackground_gl (Vec3 1 0 0)"
    using inst [THEN conjunct2, THEN conjunct2, THEN conjunct1] l
    unfolding sv fst_conv snd_conv n2 by blast
  have r4: "marchLoop ?U (Suc 0) (Vec3 101 0 0) (Vec3 1 0 0) = sampleBackground_gl (Vec3 1 0 0)"
    using inst [THEN conjunct2, THEN conjunct2, THEN conjunct2] q unfolding n2 by blast
  show ?thesis using k e l q r1 r2 r3 r4 by blast
qed

section \<open>Rays that end at the horizon\<close>

lemmas noise_ops = add3_def sub3_def scale3_def splat3_def dot3_def map3_def map4_def
  zip3_def zip4_def dot4_def glsl_floor_def glsl_mod_def glsl_step_def permute_def
  taylorInvSqrt_def

lemma snoise_axis_values:
  "snoise (Vec3 0 0 0) \<noteq> - 1" "snoise (Vec3 2 0 0) \<noteq> - 1" "snoise (Vec3 8 0 0) \<noteq> - 1"
  "snoise (Vec3 18 0 0) \<noteq> - 1" "snoise (Vec3 32 0 0) \<noteq> - 1"
  by (simp_all add: snoise_def Let_def noise_ops cong: let_weak_cong)

lemma five: "(5::nat) = Suc (Suc (Suc (Suc (Suc 0))))"
  by simp

lemma diskNoise_example:
  "diskNoise (uniformsOf 1.24 0 1 9 1 0) (Vec3 2.5 0 0)
     = (0.5 * snoise (Vec3 0 0 0) + 0.5) * (0.5 * snoise (Vec3 2 0 0) + 0.5)
       * (0.5 * snoise (Vec3 8 0 0) + 0.5) * (0.5 * snoise (Vec3 18 0 0) + 0.5)
       * (0.5 * snoise (Vec3 32 0 0) + 0.5)"
  unfolding diskNoise_def five
  by (simp add: toSpherical_def Let_def length3_axis atan2_def clamp_def pow_def scale3_def)

lemma diskNoise_example_nonzero:
  "diskNoise (uniformsOf 1.24 0 1 9 1 0) (Vec3 2.5 0 0) \<noteq> 0"
  unfolding diskNoise_example using snoise_axis_values by simp

lemma diskEmission_red_positive: "0 < vx (diskEmission U p)"
proof -
  define r where "r = length2 (Vec2 (vx p) (vz p))"
  define temp where "temp = pow (smoothstep (uDiskOuter U) (uDiskInner U) r) 0.75"
  define dop where
    "dop = sin (atan2 (vz p) (vx p) - uTime U * uDiskRotationSpeed U * (1 / sqrt (max r 0.1)))"
  define base where
    "base = (if dop > 0 then mix 1.2 0.3 dop else mix 1.2 2 (- dop))"
  have e: "vx (diskEmission U p)
             = ((temp * 12 + 2) * (1 + dop * 0.7)) * mix base 1.8 (temp * 0.8)"
    by (simp add: diskEmission_def Let_def r_def temp_def dop_def base_def mix3_def scale3_def)
  have t0: "0 \<le> temp" by (simp add: temp_def pow_nonneg)
  have t1: "temp \<le> 1" unfolding temp_def using smoothstep_range by (intro pow_le_one) simp_all
  have d: "-1 \<le> dop" "dop \<le> 1" by (simp_all add: dop_def)
  have b: "0 < base"
  proof (cases "dop > 0")
    case True
    then have "base = 1.2 * (1 - dop) + 0.3 * dop" by (simp add: base_def mix_def)
    then show ?thesis using d by argo
  next
    case False
    then have "base = 1.2 * (1 - - dop) + 2 * - dop" by (simp add: base_def mix_def)
    then show ?thesis using False by argo
  qed
  have "0 < base * (1 - temp * 0.8)" using b t1 by simp
  moreover have "0 \<le> 1.8 * (temp * 0.8)" using t0 by simp
  ultimately have m: "0 < mix base 1.8 (temp * 0.8)" unfolding mix_def by linarith
  have "0 < temp * 12 + 2" using t0 by simp
  moreover have "0 < 1 + dop * 0.7" using d by simp
  ultimately have k: "0 < (temp * 12 + 2) * (1 + dop * 0.7)" by simp
  show ?thesis unfolding e using k m by simp
qed

text \<open>
  C1. When the loop of \<open>traceColor\<close> ends at the horizon test, the shader returns the
  colour accumulated from the disk up to that pass, unchanged: the horizon adds nothing
  and removes nothing. In \<open>gravitational_lensing.glsl\<close>, which does not accumulate, the
  loop's colour at the horizon test is exactly black.
\<close>

theorem absorbed_ray_colour:
  "(n < MAX_STEPS
      \<and> activeFor U (angularMomentum2 (initRay p d)) n (initRay p d)
      \<and> absorbed U (iterRay U (angularMomentum2 (initRay p d)) n (initRay p d))
     \<longrightarrow> traceColor U p d = color (iterRay U (angularMomentum2 (initRay p d)) n (initRay p d)))
   \<and> (k < MAX_STEPS_gl \<and> marchingFor U k pv
        \<and> length3 (fst (iterMarch k pv)) < SCHWARZSCHILD_RADIUS * 1.05
     \<longrightarrow> marchLoop U MAX_STEPS_gl (fst pv) (snd pv) = Vec3 0 0 0)"
proof (intro conjI impI)
  let ?h = "angularMomentum2 (initRay p d)"
  assume "n < MAX_STEPS
    \<and> activeFor U ?h n (initRay p d) \<and> absorbed U (iterRay U ?h n (initRay p d))"
  then have "n < MAX_STEPS" and "activeFor U ?h n (initRay p d)"
    and "absorbed U (iterRay U ?h n (initRay p d))" by blast+
  then show "traceColor U p d = color (iterRay U ?h n (initRay p d))"
    by (rule traceColor_absorbed)
next
  assume "k < MAX_STEPS_gl \<and> marchingFor U k pv
      \<and> length3 (fst (iterMarch k pv)) < SCHWARZSCHILD_RADIUS * 1.05"
  then have "k < MAX_STEPS_gl" and "marchingFor U k pv"
    and "length3 (fst (iterMarch k pv)) < SCHWARZSCHILD_RADIUS * 1.05" by blast+
  then show "marchLoop U MAX_STEPS_gl (fst pv) (snd pv) = Vec3 0 0 0"
    by (rule marchLoop_absorbed)
qed

text \<open>A ray from \<open>(2.05, 0, 0)\<close> pointing at the hole passes one step inside the disk's
  inner radius, where the density is zero, and is absorbed at the second test with the
  colour black; in the lensing shader the ray from \<open>(2.15, 0, 0)\<close> is absorbed after one
  RK4 step.\<close>

theorem absorbed_ray_colour_witness:
  "(1::nat) < MAX_STEPS
   \<and> activeFor (uniformsOf 1 0 3 9 0.3 0)
        (angularMomentum2 (initRay (Vec3 2.05 0 0) (Vec3 (-1) 0 0))) 1
        (initRay (Vec3 2.05 0 0) (Vec3 (-1) 0 0))
   \<and> absorbed (uniformsOf 1 0 3 9 0.3 0)
        (iterRay (uniformsOf 1 0 3 9 0.3 0)
           (angularMomentum2 (initRay (Vec3 2.05 0 0) (Vec3 (-1) 0 0))) 1
           (initRay (Vec3 2.05 0 0) (Vec3 (-1) 0 0)))
   \<and> traceColor (uniformsOf 1 0 3 9 0.3 0) (Vec3 2.05 0 0) (Vec3 (-1) 0 0) = Vec3 0 0 0
   \<and> (1::nat) < MAX_STEPS_gl
   \<and> marchingFor (uniformsOf 1 0 3 9 0.3 0) 1 (Vec3 2.15 0 0, Vec3 (-1) 0 0)
   \<and> length3 (fst (iterMarch 1 (Vec3 2.15 0 0, Vec3 (-1) 0 0))) < SCHWARZSCHILD_RADIUS * 1.05
   \<and> marchLoop (uniformsOf 1 0 3 9 0.3 0) MAX_STEPS_gl (Vec3 2.15 0 0) (Vec3 (-1) 0 0)
       = Vec3 0 0 0"
proof -
  let ?U = "uniformsOf 1 0 3 9 0.3 0"
  let ?s = "\<lparr> pos = Vec3 2.05 0 0, dir = Vec3 (- 0.1) 0 0, color = Vec3 0 0 0, alpha = 1 \<rparr>"
  have i: "initRay (Vec3 2.05 0 0) (Vec3 (-1) 0 0) = ?s"
    by (simp add: initRay_def STEP_SIZE_def scale3_def splat3_def)
  have h: "angularMomentum2 ?s = 0"
    by (simp add: angularMomentum2_def cross_def dot3_def)
  have act: "active ?U ?s"
    by (simp add: active_def absorbed_def eventHorizon_def length3_axis)
  have d1: "diskDensity1 ?U (Vec3 2.05 0 0) = 0"
    by (simp add: diskDensity1_def smoothstep_def clamp_def Let_def length3_axis)
  have ac: "accel 0 (Vec3 2.05 0 0) = Vec3 0 0 0"
    by (simp add: accel_def Let_def dot3_def splat3_def)
  have st: "stepRay ?U 0 ?s
      = \<lparr> pos = Vec3 1.95 0 0, dir = Vec3 (- 0.1) 0 0, color = Vec3 0 0 0, alpha = 1 \<rparr>"
    using d1 ac by (simp add: stepRay_def Let_def adiskColor_def add3_def)
  have one: "(1::nat) = Suc 0" by simp
  have a1: "activeFor ?U 0 1 ?s" unfolding one using act by simp
  have it: "iterRay ?U 0 1 ?s
      = \<lparr> pos = Vec3 1.95 0 0, dir = Vec3 (- 0.1) 0 0, color = Vec3 0 0 0, alpha = 1 \<rparr>"
    unfolding one using st by simp
  have ab: "absorbed ?U (iterRay ?U 0 1 ?s)"
    unfolding it by (simp add: absorbed_def eventHorizon_def length3_axis)
  have n1: "(1::nat) < MAX_STEPS" "(1::nat) < MAX_STEPS_gl"
    by (simp_all add: MAX_STEPS_def MAX_STEPS_gl_def)
  have m: "marching ?U (Vec3 2.15 0 0)"
    by (simp add: marching_def SCHWARZSCHILD_RADIUS_def length3_axis intersectDisk_def
          length2_axis Let_def)
  have u: "rk4Update (Vec3 2.15 0 0) (Vec3 (-1) 0 0) STEP_SIZE_gl
             = (Vec3 (2.15 + STEP_SIZE_gl * (-1)) 0 0, Vec3 (-1) 0 0)"
    by (rule rk4Update_radial) (simp_all add: STEP_SIZE_gl_def)
  have r: "rk4Step (Vec3 2.15 0 0) (Vec3 (-1) 0 0) STEP_SIZE_gl = (Vec3 2.05 0 0, Vec3 (-1) 0 0)"
    using u by (simp add: rk4Step_def normalize_def length3_axis scale3_def STEP_SIZE_gl_def)
  have mf: "marchingFor ?U 1 (Vec3 2.15 0 0, Vec3 (-1) 0 0)" unfolding one using m by simp
  have im: "iterMarch 1 (Vec3 2.15 0 0, Vec3 (-1) 0 0) = (Vec3 2.05 0 0, Vec3 (-1) 0 0)"
    unfolding one using r by simp
  have lt: "length3 (fst (iterMarch 1 (Vec3 2.15 0 0, Vec3 (-1) 0 0)))
              < SCHWARZSCHILD_RADIUS * 1.05"
    unfolding im by (simp add: length3_axis SCHWARZSCHILD_RADIUS_def)
  note inst = absorbed_ray_colour
      [of 1 ?U "Vec3 2.05 0 0" "Vec3 (-1) 0 0" 1 "(Vec3 2.15 0 0, Vec3 (-1) 0 0)"]
  have r1: "traceColor ?U (Vec3 2.05 0 0) (Vec3 (-1) 0 0) = Vec3 0 0 0"
    using inst [THEN conjunct1] n1(1) a1 ab unfolding i h it by simp
  have r2: "marchLoop ?U MAX_STEPS_gl (Vec3 2.15 0 0) (Vec3 (-1) 0 0) = Vec3 0 0 0"
    using inst [THEN conjunct2] n1(2) mf lt unfolding fst_conv snd_conv by simp
  show ?thesis unfolding i h using n1 a1 ab r1 mf lt r2 by simp
qed

text \<open>
  With mass 1.24 (horizon radius 2.48) and a disk from radius 1 to 9 of thickness 1, the
  ray from \<open>(2.5, 0, 0)\<close> pointing at the hole samples the disk once, at \<open>(2.5, 0, 0)\<close>,
  moves to \<open>(2.4, 0, 0)\<close> and ends at the horizon test with a colour whose red
  component is positive.
\<close>

theorem absorbed_ray_not_black_counterexample:
  "activeFor (uniformsOf 1.24 0 1 9 1 0)
       (angularMomentum2 (initRay (Vec3 2.5 0 0) (Vec3 (-1) 0 0))) 1
       (initRay (Vec3 2.5 0 0) (Vec3 (-1) 0 0))
   \<and> absorbed (uniformsOf 1.24 0 1 9 1 0)
        (iterRay (uniformsOf 1.24 0 1 9 1 0)
           (angularMomentum2 (initRay (Vec3 2.5 0 0) (Vec3 (-1) 0 0))) 1
           (initRay (Vec3 2.5 0 0) (Vec3 (-1) 0 0)))
   \<and> traceColor (uniformsOf 1.24 0 1 9 1 0) (Vec3 2.5 0 0) (Vec3 (-1) 0 0) \<noteq> Vec3 0 0 0"
proof -
  let ?U = "uniformsOf 1.24 0 1 9 1 0"
  let ?P = "Vec3 2.5 0 0"
  let ?s = "\<lparr> pos = ?P, dir = Vec3 (- 0.1) 0 0, color = Vec3 0 0 0, alpha = 1 \<rparr>"
  have i: "initRay ?P (Vec3 (-1) 0 0) = ?s"
    by (simp add: initRay_def STEP_SIZE_def scale3_def splat3_def)
  have h: "angularMomentum2 ?s = 0"
    by (simp add: angularMomentum2_def cross_def dot3_def)
  have act: "active ?U ?s"
    by (simp add: active_def absorbed_def eventHorizon_def length3_axis)
  have d0: "diskDensity0 ?U ?P = 13 / 18"
    by (simp add: diskDensity0_def ellipsoidRadius_def div3_def length3_axis)
  have d1: "diskDensity1 ?U ?P = 13 / 18"
    using d0 by (simp add: diskDensity1_def smoothstep_def clamp_def Let_def length3_axis pow_def)
  have dd: "0 < diskDensity ?U ?P"
    using d1 by (simp add: diskDensity_def toSpherical_def Let_def length3_axis pow_def)
  have ac: "accel 0 ?P = Vec3 0 0 0"
    by (simp add: accel_def Let_def dot3_def splat3_def)
  have ps: "pos (stepRay ?U 0 ?s) = Vec3 2.4 0 0"
    using ac by (simp add: stepRay_def Let_def add3_def)
  have cs: "vx (color (stepRay ?U 0 ?s))
      = diskDensity ?U ?P * 0.8 * \<bar>diskNoise ?U ?P\<bar> * vx (diskEmission ?U ?P)"
    using d0 d1 by (simp add: stepRay_def Let_def adiskColor_def add3_def scale3_def)
  have "0 < \<bar>diskNoise ?U ?P\<bar>" using diskNoise_example_nonzero by simp
  then have cp: "0 < vx (color (stepRay ?U 0 ?s))"
    unfolding cs using dd diskEmission_red_positive [of ?U ?P] by simp
  have one: "(1::nat) = Suc 0" by simp
  have a1: "activeFor ?U 0 1 ?s" unfolding one using act by simp
  have it: "iterRay ?U 0 1 ?s = stepRay ?U 0 ?s" unfolding one by simp
  have ab: "absorbed ?U (iterRay ?U 0 1 ?s)"
    unfolding it absorbed_def ps by (simp add: eventHorizon_def length3_axis)
  have n1: "(1::nat) < MAX_STEPS" by (simp add: MAX_STEPS_def)
  have "traceColor ?U ?P (Vec3 (-1) 0 0) = color (iterRay ?U 0 1 ?s)"
    using traceColor_absorbed [of 1 ?U ?P "Vec3 (-1) 0 0"] n1 a1 ab unfolding i h by simp
  then have "0 < vx (traceColor ?U ?P (Vec3 (-1) 0 0))" using cp unfolding it by simp
  then have r: "traceColor ?U ?P (Vec3 (-1) 0 0) \<noteq> Vec3 0 0 0" by auto
  show ?thesis unfolding i h using a1 ab r by simp
qed

section \<open>The density profile of the disk\<close>

lemma toSpherical_rho: "vx (toSpherical p) = length3 p"
  by (simp add: toSpherical_def Let_def)

lemma ellipsoid_sq:
  "ellipsoidRadius U (Vec3 x y z)
     = sqrt ((x / uDiskOuter U)^2 + (y / uDiskThickness U)^2 + (z / uDiskOuter U)^2)"
  by (simp add: ellipsoidRadius_def length3_def dot3_def div3_def power2_eq_square)

lemma abs_less_sq: "\<bar>a\<bar> < \<bar>b\<bar> \<Longrightarrow> a^2 < (b::real)^2"
  using abs_less_iff power2_abs abs_ge_zero power_strict_mono
  by (metis zero_less_numeral)

lemma ellipsoid_mono:
  assumes "0 < uDiskThickness U" and "\<bar>ya\<bar> < \<bar>yb\<bar>"
  shows "ellipsoidRadius U (Vec3 x ya z) < ellipsoidRadius U (Vec3 x yb z)"
proof -
  have "\<bar>ya / uDiskThickness U\<bar> < \<bar>yb / uDiskThickness U\<bar>"
    using assms by (simp add: divide_strict_right_mono)
  then have "(ya / uDiskThickness U)^2 < (yb / uDiskThickness U)^2" by (rule abs_less_sq)
  then show ?thesis unfolding ellipsoid_sq by simp
qed

lemma ellipsoid_bounds_y:
  assumes "0 < uDiskThickness U"
  shows "\<bar>y\<bar> / uDiskThickness U \<le> ellipsoidRadius U (Vec3 x y z)"
proof -
  have "(y / uDiskThickness U)^2
          \<le> (x / uDiskOuter U)^2 + (y / uDiskThickness U)^2 + (z / uDiskOuter U)^2"
    by simp
  then have "sqrt ((y / uDiskThickness U)^2) \<le> ellipsoidRadius U (Vec3 x y z)"
    unfolding ellipsoid_sq by (rule real_sqrt_le_mono)
  then show ?thesis using assms by simp
qed

lemma length3_mono_y:
  assumes "\<bar>ya\<bar> < \<bar>yb\<bar>"
  shows "length3 (Vec3 x ya z) < length3 (Vec3 x yb z)"
proof -
  have "ya^2 < yb^2" using assms by (rule abs_less_sq)
  then show ?thesis by (simp add: length3_def dot3_def power2_eq_square)
qed

lemma smoothstep_saturated:
  assumes "0 < i" and "i * 1.1 \<le> r"
  shows "smoothstep i (i * 1.1) r = 1"
proof -
  have "1 \<le> (r - i) / (i * 1.1 - i)" using assms by (simp add: field_simps)
  then have "clamp ((r - i) / (i * 1.1 - i)) 0 1 = 1" by (simp add: clamp_def)
  then show ?thesis by (simp add: smoothstep_def Let_def)
qed

lemma disk_outside: 
  assumes "1 \<le> ellipsoidRadius U p"
  shows "diskDensity0 U p = 0 \<and> adiskColor U p (c, a) = (c, a)"
  using assms by (simp add: diskDensity0_def adiskColor_def Let_def)

lemma diskDensity0_decreasing:
  assumes "0 < uDiskThickness U" and "ellipsoidRadius U (Vec3 x yb z) < 1" and "\<bar>ya\<bar> < \<bar>yb\<bar>"
  shows "diskDensity0 U (Vec3 x yb z) < diskDensity0 U (Vec3 x ya z)"
  using ellipsoid_mono [OF assms(1,3), of x z] assms(2) by (simp add: diskDensity0_def)

lemma diskDensity_decreasing:
  assumes T: "0 < uDiskThickness U" and I: "0 < uDiskInner U"
    and ins: "ellipsoidRadius U (Vec3 x yb z) < 1" and y: "\<bar>ya\<bar> < \<bar>yb\<bar>"
    and sat: "uDiskInner U * 1.1 \<le> length3 (Vec3 x ya z)"
  shows "diskDensity U (Vec3 x yb z) < diskDensity U (Vec3 x ya z)"
proof -
  let ?p1 = "Vec3 x ya z" and ?p2 = "Vec3 x yb z"
  have d: "diskDensity0 U ?p2 < diskDensity0 U ?p1" using T ins y by (rule diskDensity0_decreasing)
  have d2: "0 < diskDensity0 U ?p2" using ins by (simp add: diskDensity0_def)
  have "\<bar>yb\<bar> / uDiskThickness U < 1" using ellipsoid_bounds_y [OF T, of yb x z] ins by linarith
  then have b2: "0 < 1 - \<bar>yb\<bar> / uDiskThickness U" by linarith
  have "\<bar>ya\<bar> / uDiskThickness U < \<bar>yb\<bar> / uDiskThickness U"
    using y T by (simp add: divide_strict_right_mono)
  then have b12: "1 - \<bar>yb\<bar> / uDiskThickness U < 1 - \<bar>ya\<bar> / uDiskThickness U" by linarith
  have v: "pow (1 - \<bar>yb\<bar> / uDiskThickness U) 2 < pow (1 - \<bar>ya\<bar> / uDiskThickness U) 2"
    unfolding pow_def using b2 b12 by (intro powr_less_mono2) simp_all
  have v2: "0 < pow (1 - \<bar>yb\<bar> / uDiskThickness U) 2"
    unfolding pow_def powr_gt_zero using b2 by linarith
  have l12: "length3 ?p1 < length3 ?p2" using y by (rule length3_mono_y)
  have "0 < uDiskInner U * 1.1" using I by simp
  then have l1: "0 < length3 ?p1" using sat by linarith
  have s1: "smoothstep (uDiskInner U) (uDiskInner U * 1.1) (length3 ?p1) = 1"
    using I sat by (rule smoothstep_saturated)
  have s2: "smoothstep (uDiskInner U) (uDiskInner U * 1.1) (length3 ?p2) = 1"
    using I sat l12 by (intro smoothstep_saturated) simp_all
  have "pow (length3 ?p1) 4 < pow (length3 ?p2) 4"
    unfolding pow_def using l1 l12 by (intro powr_less_mono2) simp_all
  moreover have w1: "0 < pow (length3 ?p1) 4"
    unfolding pow_def powr_gt_zero using l1 by linarith
  ultimately have w: "1 / pow (length3 ?p2) 4 < 1 / pow (length3 ?p1) 4"
    by (simp add: frac_less2)
  have "0 < pow (length3 ?p2) 4"
    unfolding pow_def powr_gt_zero using l1 l12 by linarith
  then have w2: "0 < 1 / pow (length3 ?p2) 4" by simp
  have d1: "0 < diskDensity0 U ?p1" using d d2 by linarith
  have A: "diskDensity0 U ?p2 * pow (1 - \<bar>yb\<bar> / uDiskThickness U) 2
          < diskDensity0 U ?p1 * pow (1 - \<bar>ya\<bar> / uDiskThickness U) 2"
    by (rule mult_strict_mono [OF d v d1 less_imp_le [OF v2]])
  have A2: "0 < diskDensity0 U ?p2 * pow (1 - \<bar>yb\<bar> / uDiskThickness U) 2"
    using d2 v2 by (rule mult_pos_pos)
  have A1: "0 < diskDensity0 U ?p1 * pow (1 - \<bar>ya\<bar> / uDiskThickness U) 2"
    using A A2 by linarith
  have "diskDensity0 U ?p2 * pow (1 - \<bar>yb\<bar> / uDiskThickness U) 2
                     * (1 / pow (length3 ?p2) 4)
          < diskDensity0 U ?p1 * pow (1 - \<bar>ya\<bar> / uDiskThickness U) 2
                     * (1 / pow (length3 ?p1) 4)"
    by (rule mult_strict_mono [OF A w A1 less_imp_le [OF w2]])
  then have "diskDensity0 U ?p2 * pow (1 - \<bar>yb\<bar> / uDiskThickness U) 2 * 1
                     * (1 / pow (length3 ?p2) 4)
          < diskDensity0 U ?p1 * pow (1 - \<bar>ya\<bar> / uDiskThickness U) 2 * 1
                     * (1 / pow (length3 ?p1) 4)"
    by simp
  then have "diskDensity0 U ?p2 * pow (1 - \<bar>yb\<bar> / uDiskThickness U) 2 * 1
                     * (1 / pow (length3 ?p2) 4) * 32000
          < diskDensity0 U ?p1 * pow (1 - \<bar>ya\<bar> / uDiskThickness U) 2 * 1
                     * (1 / pow (length3 ?p1) 4) * 32000"
    by (rule mult_strict_right_mono) simp
  then show ?thesis
    unfolding diskDensity_def diskDensity1_def toSpherical_rho vec3.sel s1 s2 .
qed

text \<open>
  C5. For a disk with positive outer radius, thickness and inner radius: at every position
  outside the ellipsoid the density is zero and \<open>adiskColor\<close> leaves colour and opacity
  unchanged. Inside the ellipsoid, with the horizontal coordinates fixed, the ellipsoidal
  base density \<open>max(0, 1 - |p'|)\<close> is strictly decreasing in \<open>|y|\<close>; the density after
  the vertical, inner-edge and radial factors is strictly decreasing in \<open>|y|\<close> where the
  inner-edge factor is saturated, that is from a point at distance at least
  \<open>1.1 * innerRadius\<close> from the centre upwards.
\<close>

theorem disk_density_profile:
  assumes "0 < uDiskOuter U" and "0 < uDiskThickness U" and "0 < uDiskInner U"
  shows "(1 \<le> ellipsoidRadius U p \<longrightarrow> diskDensity0 U p = 0 \<and> adiskColor U p (c, a) = (c, a))
       \<and> (ellipsoidRadius U (Vec3 x yb z) < 1 \<and> \<bar>ya\<bar> < \<bar>yb\<bar>
            \<longrightarrow> diskDensity0 U (Vec3 x yb z) < diskDensity0 U (Vec3 x ya z))
       \<and> (ellipsoidRadius U (Vec3 x yb z) < 1 \<and> \<bar>ya\<bar> < \<bar>yb\<bar>
              \<and> uDiskInner U * 1.1 \<le> length3 (Vec3 x ya z)
            \<longrightarrow> diskDensity U (Vec3 x yb z) < diskDensity U (Vec3 x ya z))"
  using assms disk_outside diskDensity0_decreasing diskDensity_decreasing by blast


theorem disk_density_profile_witness:
  "0 < uDiskOuter (uniformsOf 1 0 3 9 4 0) \<and> 0 < uDiskThickness (uniformsOf 1 0 3 9 4 0)
   \<and> 0 < uDiskInner (uniformsOf 1 0 3 9 4 0)
   \<and> 1 \<le> ellipsoidRadius (uniformsOf 1 0 3 9 4 0) (Vec3 10 0 0)
   \<and> adiskColor (uniformsOf 1 0 3 9 4 0) (Vec3 10 0 0) (Vec3 0 0 0, 1) = (Vec3 0 0 0, 1)
   \<and> ellipsoidRadius (uniformsOf 1 0 3 9 4 0) (Vec3 6 1 0) < 1 \<and> \<bar>0::real\<bar> < \<bar>1\<bar>
   \<and> uDiskInner (uniformsOf 1 0 3 9 4 0) * 1.1 \<le> length3 (Vec3 6 0 0)
   \<and> diskDensity0 (uniformsOf 1 0 3 9 4 0) (Vec3 6 1 0)
       < diskDensity0 (uniformsOf 1 0 3 9 4 0) (Vec3 6 0 0)
   \<and> diskDensity (uniformsOf 1 0 3 9 4 0) (Vec3 6 1 0)
       < diskDensity (uniformsOf 1 0 3 9 4 0) (Vec3 6 0 0)"
proof -
  let ?U = "uniformsOf 1 0 3 9 4 0"
  have u: "0 < uDiskOuter ?U" "0 < uDiskThickness ?U" "0 < uDiskInner ?U" by simp_all
  have out: "1 \<le> ellipsoidRadius ?U (Vec3 10 0 0)"
    by (simp add: ellipsoidRadius_def div3_def length3_axis)
  have ins: "ellipsoidRadius ?U (Vec3 6 1 0) < 1"
    by (simp add: ellipsoid_sq power2_eq_square)
  have y: "\<bar>0::real\<bar> < \<bar>1\<bar>" by simp
  have sat: "uDiskInner ?U * 1.1 \<le> length3 (Vec3 6 0 0)" by (simp add: length3_axis)
  note inst = disk_density_profile [OF u, of "Vec3 10 0 0" "Vec3 0 0 0" 1 6 1 0 0]
  have r1: "adiskColor ?U (Vec3 10 0 0) (Vec3 0 0 0, 1) = (Vec3 0 0 0, 1)"
    using inst [THEN conjunct1] out by blast
  have r2: "diskDensity0 ?U (Vec3 6 1 0) < diskDensity0 ?U (Vec3 6 0 0)"
    using inst [THEN conjunct2, THEN conjunct1] ins y by blast
  have r3: "diskDensity ?U (Vec3 6 1 0) < diskDensity ?U (Vec3 6 0 0)"
    using inst [THEN conjunct2, THEN conjunct2] ins y sat by blast
  show ?thesis using u out ins y sat r1 r2 r3 by blast
qed

text \<open>
  With inner radius 3.5, outer radius 9 and thickness 4, the points \<open>(2.4, 0, 0)\<close> and
  \<open>(2.4, 3.2, 0)\<close> are both inside the ellipsoid. The first is closer to the centre than
  the inner radius, so the inner-edge \<open>smoothstep\<close> makes its density 0; the second is at
  distance 4 and has positive density: the density grows with \<open>|y|\<close> there.
\<close>

theorem density_increases_at_inner_edge_counterexample:
  "0 < uDiskOuter (uniformsOf 1 0 3.5 9 4 0) \<and> 0 < uDiskThickness (uniformsOf 1 0 3.5 9 4 0)
   \<and> uDiskInner (uniformsOf 1 0 3.5 9 4 0) < uDiskOuter (uniformsOf 1 0 3.5 9 4 0)
   \<and> ellipsoidRadius (uniformsOf 1 0 3.5 9 4 0) (Vec3 2.4 0 0) < 1
   \<and> ellipsoidRadius (uniformsOf 1 0 3.5 9 4 0) (Vec3 2.4 3.2 0) < 1
   \<and> \<bar>0::real\<bar> < \<bar>3.2\<bar>
   \<and> diskDensity (uniformsOf 1 0 3.5 9 4 0) (Vec3 2.4 0 0)
       < diskDensity (uniformsOf 1 0 3.5 9 4 0) (Vec3 2.4 3.2 0)"
proof -
  let ?U = "uniformsOf 1 0 3.5 9 4 0"
  have u: "0 < uDiskOuter ?U" "0 < uDiskThickness ?U" "uDiskInner ?U < uDiskOuter ?U"
    by simp_all
  have i1: "ellipsoidRadius ?U (Vec3 2.4 0 0) < 1"
    by (simp add: ellipsoid_sq power2_eq_square)
  have i2: "ellipsoidRadius ?U (Vec3 2.4 3.2 0) < 1"
    by (simp add: ellipsoid_sq power2_eq_square)
  have y: "\<bar>0::real\<bar> < \<bar>3.2\<bar>" by simp
  have low: "diskDensity ?U (Vec3 2.4 0 0) = 0"
    by (simp add: diskDensity_def diskDensity1_def smoothstep_def clamp_def Let_def length3_axis)
  have "length3 (Vec3 2.4 3.2 0) = sqrt (4 * 4)" by (simp add: length3_def dot3_def)
  then have l: "length3 (Vec3 2.4 3.2 0) = 4" by (simp only: real_sqrt_abs2 abs_numeral)
  have s: "smoothstep (uDiskInner ?U) (uDiskInner ?U * 1.1) (length3 (Vec3 2.4 3.2 0)) = 1"
    unfolding l by (rule smoothstep_saturated) simp_all
  have d0: "0 < diskDensity0 ?U (Vec3 2.4 3.2 0)" using i2 by (simp add: diskDensity0_def)
  have v: "0 < pow (1 - \<bar>vy (Vec3 2.4 3.2 0)\<bar> / uDiskThickness ?U) 2"
    unfolding pow_def powr_gt_zero by simp
  have w: "0 < 1 / pow (vx (toSpherical (Vec3 2.4 3.2 0))) 4"
    unfolding toSpherical_rho l pow_def by simp
  have "0 < diskDensity0 ?U (Vec3 2.4 3.2 0)
            * pow (1 - \<bar>vy (Vec3 2.4 3.2 0)\<bar> / uDiskThickness ?U) 2
            * smoothstep (uDiskInner ?U) (uDiskInner ?U * 1.1) (length3 (Vec3 2.4 3.2 0))
            * (1 / pow (vx (toSpherical (Vec3 2.4 3.2 0))) 4) * 32000"
    unfolding s using d0 v w by simp
  then have high: "0 < diskDensity ?U (Vec3 2.4 3.2 0)"
    unfolding diskDensity_def diskDensity1_def .
  show ?thesis using u i1 i2 y low high by simp
qed

end
